theory Spec2Isabelle
  imports Main
begin

section \<open>The L5 type checker (L5-typecheck.ts)\<close>

text \<open>
  A shallow embedding of the type checker of \<^verbatim>\<open>src/Liron/src/L5/L5-typecheck.ts\<close>.
  The checker is a pure function from a parsed expression and a type environment to a
  \<^verbatim>\<open>Result\<close>: either a type expression or a failure carrying a message.
\<close>

subsection \<open>Results (shared/result)\<close>

text \<open>
  \<^verbatim>\<open>Result<T>\<close> is \<^verbatim>\<open>Ok<T> | Failure\<close>; a failure carries its message string.
  \<^verbatim>\<open>makeFailure m\<close> is \<open>Inl m\<close> and \<^verbatim>\<open>makeOk v\<close> is \<open>Inr v\<close>.
\<close>

type_synonym 'a Result = "string + 'a"

abbreviation makeOk :: "'a \<Rightarrow> 'a Result" where
  "makeOk v \<equiv> Inr v"

abbreviation makeFailure :: "string \<Rightarrow> 'a Result" where
  "makeFailure m \<equiv> Inl m"

definition isOk :: "'a Result \<Rightarrow> bool" where
  "isOk r = (case r of Inr _ \<Rightarrow> True | Inl _ \<Rightarrow> False)"

text \<open>\<^verbatim>\<open>bind(r, f)\<close>: a failure is passed on as it is, a value is given to \<open>f\<close>.\<close>

definition bind_result :: "'a Result \<Rightarrow> ('a \<Rightarrow> 'b Result) \<Rightarrow> 'b Result" where
  "bind_result r f = (case r of Inl m \<Rightarrow> Inl m | Inr v \<Rightarrow> f v)"

text \<open>
  Modelled from the spec: \<^verbatim>\<open>zipWithResult\<close> (shared/result) is not among the sources.
  It applies \<open>f\<close> to the two lists position by position, in order, stops at the first
  failure and otherwise collects the values.
\<close>

fun zipWithResult :: "('a \<Rightarrow> 'b \<Rightarrow> 'c Result) \<Rightarrow> 'a list \<Rightarrow> 'b list \<Rightarrow> 'c list Result" where
  "zipWithResult f [] ys = makeOk []"
| "zipWithResult f (x # xs) [] = makeOk []"
| "zipWithResult f (x # xs) (y # ys) =
     bind_result (f x y) (\<lambda>fxy.
       bind_result (zipWithResult f xs ys) (\<lambda>fxys. makeOk (fxy # fxys)))"

text \<open>
  JavaScript's \<^verbatim>\<open>+\<close> between a string and an object converts the object with
  \<^verbatim>\<open>Object.prototype.toString\<close>. A \<^verbatim>\<open>Result\<close> is a plain tagged object, so the
  conversion yields the same text whatever the result holds.
\<close>

definition js_String :: "'a Result \<Rightarrow> string" where
  "js_String r = ''[object Object]''"

subsection \<open>Type expressions (TExp)\<close>

text \<open>
  Modelled from the spec: the module \<^verbatim>\<open>TExp\<close> is not among the sources. Section 3 of the
  spec gives the closed set of type values: the atomic types Number, Boolean, String, Void
  and Literal, pairs, arrows with an ordered parameter list and a result, and type
  variables that carry a name only. \<^verbatim>\<open>equals\<close> (ramda) on them is structural equality.
\<close>

datatype TExp =
    NumTExp
  | BoolTExp
  | StrTExp
  | VoidTExp
  | LiteralTExp
  | PairTExp TExp TExp
  | ProcTExp "TExp list" TExp
  | TVar string

fun isTVar :: "TExp \<Rightarrow> bool" where
  "isTVar (TVar v) = True"
| "isTVar t = False"

fun isPairTExp :: "TExp \<Rightarrow> bool" where
  "isPairTExp (PairTExp a b) = True"
| "isPairTExp t = False"

fun isProcTExp :: "TExp \<Rightarrow> bool" where
  "isProcTExp (ProcTExp ps r) = True"
| "isProcTExp t = False"

fun isAtomicTExp :: "TExp \<Rightarrow> bool" where
  "isAtomicTExp NumTExp = True"
| "isAtomicTExp BoolTExp = True"
| "isAtomicTExp StrTExp = True"
| "isAtomicTExp VoidTExp = True"
| "isAtomicTExp LiteralTExp = True"
| "isAtomicTExp t = False"

subsection \<open>The abstract syntax (L5-ast)\<close>

text \<open>
  The tagged nodes of \<^verbatim>\<open>L4-ast.ts\<close>, with the type annotations that the checker reads:
  \<^verbatim>\<open>texp\<close> on a variable declaration and \<^verbatim>\<open>returnTE\<close> on a procedure. The numeric
  payload of a number is never inspected by the checker.
\<close>

datatype SExpValue =
    SNumber int
  | SBoolean bool
  | SString string
  | SymbolSExp string
  | EmptySExp
  | CompoundSExp SExpValue SExpValue

record VarDecl =
  var :: string
  texp :: TExp

datatype Parsed =
    NumExp int
  | BoolExp bool
  | StrExp string
  | PrimOp string
  | VarRef string
  | AppExp Parsed "Parsed list"
  | IfExp Parsed Parsed Parsed
  | ProcExp "VarDecl list" "Parsed list" TExp
  | LetExp "Binding list" "Parsed list"
  | LitExp SExpValue
  | LetrecExp "Binding list" "Parsed list"
  | SetExp string Parsed
  | DefineExp VarDecl Parsed
  | Program "Parsed list"
and Binding = Binding (bvar: VarDecl) (bval: Parsed)

fun isProcExp :: "Parsed \<Rightarrow> bool" where
  "isProcExp (ProcExp args body returnTE) = True"
| "isProcExp e = False"

text \<open>
  The fields of a procedure literal. \<^verbatim>\<open>typeofLetrec\<close> reads them only after it has
  checked that every bound value is a procedure literal.
\<close>

fun procArgs :: "Parsed \<Rightarrow> VarDecl list" where
  "procArgs (ProcExp args body returnTE) = args"
| "procArgs e = []"

fun procBody :: "Parsed \<Rightarrow> Parsed list" where
  "procBody (ProcExp args body returnTE) = body"
| "procBody e = []"

fun procReturnTE :: "Parsed \<Rightarrow> TExp" where
  "procReturnTE (ProcExp args body returnTE) = returnTE"
| "procReturnTE e = VoidTExp"

fun isDefineExp :: "Parsed \<Rightarrow> bool" where
  "isDefineExp (DefineExp v val) = True"
| "isDefineExp e = False"

fun isCompoundSExp :: "SExpValue \<Rightarrow> bool" where
  "isCompoundSExp (CompoundSExp v1 v2) = True"
| "isCompoundSExp v = False"

subsection \<open>The external collaborators\<close>

text \<open>
  The pretty-printers \<^verbatim>\<open>unparseTExp\<close> (TExp), \<^verbatim>\<open>unparse\<close> (L5-ast) and \<^verbatim>\<open>format\<close>
  (shared/format), the text of the failure of a lookup in the environment (TEnv), the
  parser of type expressions \<^verbatim>\<open>parseTE\<close> (TExp) and the parsers of the two textual
  entry points are not among the sources. The checker takes them as a parameter: what is
  proved holds for every printer and parser. The two unparsers return a
  \<^verbatim>\<open>Result<string>\<close>, as their callers bind over them. \<open>parseExp\<close> stands for
  \<^verbatim>\<open>bind(p(s), parseL5Exp)\<close> and \<open>parseProgram\<close> for the forms of
  \<^verbatim>\<open>bind(p(s), parseL5Program)\<close>. Nothing is assumed of the type expressions that
  \<open>parseTE\<close> returns for the literals of \<^verbatim>\<open>typeofPrim\<close>, the names of their type
  variables included.
\<close>

record printers =
  unparseTExp :: "TExp \<Rightarrow> string Result"
  unparse :: "Parsed \<Rightarrow> string Result"
  format :: "Parsed \<Rightarrow> string"
  unboundMessage :: "string \<Rightarrow> string"
  parseTE :: "string \<Rightarrow> TExp Result"
  parseExp :: "string \<Rightarrow> Parsed Result"
  parseProgram :: "string \<Rightarrow> Parsed list Result"

subsection \<open>Type environments (TEnv)\<close>

text \<open>
  Modelled from the spec: the module \<^verbatim>\<open>TEnv\<close> is not among the sources. An environment
  is a chain of frames, each binding names to type expressions; a lookup walks the chain
  from the innermost frame outwards, returns the first match and fails as unbound at the
  end of the chain. Extending an environment yields a new one that refers to the old.
\<close>

datatype TEnv =
    EmptyTEnv
  | ExtendTEnv "string list" "TExp list" TEnv

abbreviation makeEmptyTEnv :: TEnv where
  "makeEmptyTEnv \<equiv> EmptyTEnv"

abbreviation makeExtendTEnv :: "string list \<Rightarrow> TExp list \<Rightarrow> TEnv \<Rightarrow> TEnv" where
  "makeExtendTEnv vars texps tenv \<equiv> ExtendTEnv vars texps tenv"

fun applyTEnv :: "printers \<Rightarrow> TEnv \<Rightarrow> string \<Rightarrow> TExp Result" where
  "applyTEnv P EmptyTEnv v = makeFailure (unboundMessage P v)"
| "applyTEnv P (ExtendTEnv vars texps tenv) v =
     (case map_of (zip vars texps) v of
        Some te \<Rightarrow> makeOk te
      | None \<Rightarrow> applyTEnv P tenv v)"

subsection \<open>Type equality\<close>

definition checkEqualType :: "printers \<Rightarrow> TExp \<Rightarrow> TExp \<Rightarrow> Parsed \<Rightarrow> bool Result" where
  "checkEqualType P te1 te2 exp =
    (if te1 = te2 then makeOk True
     else bind_result (unparseTExp P te1) (\<lambda>te1.
            bind_result (unparseTExp P te2) (\<lambda>te2.
              bind_result (unparse P exp) (\<lambda>exp.
                makeFailure (''Incompatible types: '' @ te1 @ '' and '' @ te2 @ '' in '' @ exp)))))"

subsection \<open>Literals and primitives\<close>

definition typeofNum :: TExp where
  "typeofNum = NumTExp"

definition typeofBool :: TExp where
  "typeofBool = BoolTExp"

definition typeofStr :: TExp where
  "typeofStr = StrTExp"

text \<open>
  \<^verbatim>\<open>typeof v === 'number'\<close> and its siblings read the runtime tag of one component
  of the pair: a number, a boolean or a string; every other value is an object.
\<close>

fun typeofCompoundSExp :: "SExpValue \<Rightarrow> TExp Result" where
  "typeofCompoundSExp (CompoundSExp val1 val2) =
     (let leftType = (case val1 of
                        SNumber n \<Rightarrow> NumTExp
                      | SBoolean b \<Rightarrow> BoolTExp
                      | SString s \<Rightarrow> StrTExp
                      | SymbolSExp s \<Rightarrow> LiteralTExp
                      | _ \<Rightarrow> LiteralTExp);
          rightType = (case val2 of
                         SNumber n \<Rightarrow> NumTExp
                       | SBoolean b \<Rightarrow> BoolTExp
                       | SString s \<Rightarrow> StrTExp
                       | SymbolSExp s \<Rightarrow> LiteralTExp
                       | _ \<Rightarrow> LiteralTExp)
      in makeOk (PairTExp leftType rightType))"
| "typeofCompoundSExp v = makeOk LiteralTExp"

fun typeofLit :: "Parsed \<Rightarrow> TExp Result" where
  "typeofLit (LitExp val) =
     (if isCompoundSExp val then typeofCompoundSExp val else makeOk LiteralTExp)"

definition numOpTExp :: "printers \<Rightarrow> TExp Result" where
  "numOpTExp P = parseTE P ''(number * number -> number)''"

definition numCompTExp :: "printers \<Rightarrow> TExp Result" where
  "numCompTExp P = parseTE P ''(number * number -> boolean)''"

definition boolOpTExp :: "printers \<Rightarrow> TExp Result" where
  "boolOpTExp P = parseTE P ''(boolean * boolean -> boolean)''"

fun typeofPrim :: "printers \<Rightarrow> Parsed \<Rightarrow> TExp Result" where
  "typeofPrim P (PrimOp op) =
    (if op = ''+'' then numOpTExp P
     else if op = ''-'' then numOpTExp P
     else if op = ''*'' then numOpTExp P
     else if op = ''/'' then numOpTExp P
     else if op = ''and'' then boolOpTExp P
     else if op = ''or'' then boolOpTExp P
     else if op = ''>'' then numCompTExp P
     else if op = ''<'' then numCompTExp P
     else if op = ''='' then numCompTExp P
     else if op = ''number?'' then parseTE P ''(T -> boolean)''
     else if op = ''boolean?'' then parseTE P ''(T -> boolean)''
     else if op = ''string?'' then parseTE P ''(T -> boolean)''
     else if op = ''list?'' then parseTE P ''(T -> boolean)''
     else if op = ''pair?'' then parseTE P ''(T -> boolean)''
     else if op = ''symbol?'' then parseTE P ''(T -> boolean)''
     else if op = ''not'' then parseTE P ''(boolean -> boolean)''
     else if op = ''eq?'' then parseTE P ''(T1 * T2 -> boolean)''
     else if op = ''string=?'' then parseTE P ''(T1 * T2 -> boolean)''
     else if op = ''display'' then parseTE P ''(T -> void)''
     else if op = ''newline'' then parseTE P ''(Empty -> void)''
     else if op = ''cons'' then parseTE P ''(T1 * T2 -> (Pair T1 T2))''
     else if op = ''car'' then parseTE P ''((Pair T1 T2) -> T1)''
     else if op = ''cdr'' then parseTE P ''((Pair T1 T2) -> T2)''
     else makeFailure (''Primitive not yet implemented: '' @ op))"

subsection \<open>Unification and substitution\<close>

text \<open>
  The substitution is a \<^verbatim>\<open>Map<string, TExp>\<close> that \<^verbatim>\<open>unifyTypes\<close> mutates; the model
  returns the updated map beside the boolean. \<^verbatim>\<open>&&\<close> does not evaluate its right operand
  when the left one is false, and the bindings made by the left operand stay in the map.
\<close>

type_synonym Substitution = "string \<rightharpoonup> TExp"

fun unifyTypes :: "TExp \<Rightarrow> TExp \<Rightarrow> Substitution \<Rightarrow> bool \<times> Substitution" where
  "unifyTypes (TVar v) actual substitution =
     (case substitution v of
        Some existing \<Rightarrow> (existing = actual, substitution)
      | None \<Rightarrow> (True, substitution(v \<mapsto> actual)))"
| "unifyTypes expected actual substitution =
     (if isAtomicTExp expected \<and> isAtomicTExp actual then (expected = actual, substitution)
      else case (expected, actual) of
        (PairTExp first1 second1, PairTExp first2 second2) \<Rightarrow>
          (case unifyTypes first1 first2 substitution of
             (True, substitution1) \<Rightarrow> unifyTypes second1 second2 substitution1
           | (False, substitution1) \<Rightarrow> (False, substitution1))
      | _ \<Rightarrow> (expected = actual, substitution))"

fun substituteTypeVars :: "TExp \<Rightarrow> Substitution \<Rightarrow> TExp" where
  "substituteTypeVars (TVar v) substitution =
     (case substitution v of Some te \<Rightarrow> te | None \<Rightarrow> TVar v)"
| "substituteTypeVars (PairTExp first second) substitution =
     PairTExp (substituteTypeVars first substitution) (substituteTypeVars second substitution)"
| "substituteTypeVars (ProcTExp paramTEs returnTE) substitution =
     ProcTExp (map (\<lambda>p. substituteTypeVars p substitution) paramTEs)
              (substituteTypeVars returnTE substitution)"
| "substituteTypeVars type substitution = type"

subsection \<open>The typing rules\<close>

lemma bind_result_cong [fundef_cong]:
  "r = r' \<Longrightarrow> (\<And>v. r' = Inr v \<Longrightarrow> f v = g v) \<Longrightarrow> bind_result r f = bind_result r' g"
  by (auto simp: bind_result_def split: sum.splits)

text \<open>The size of what the rules recurse on, for the termination of the rules.\<close>

lemma size_list_bval: "size_list (size \<circ> bval) bindings \<le> size_list size bindings"
proof (induction bindings)
  case Nil
  show ?case by simp
next
  case (Cons b bindings)
  obtain vd val where b: "b = Binding vd val" by (cases b)
  with Cons show ?case by simp
qed

lemma size_procBody: "size_list size (procBody e) \<le> size e"
  by (cases e) simp_all

lemma size_list_procBody:
  "size_list (size_list size \<circ> (procBody \<circ> bval)) bindings \<le> size_list size bindings"
proof (induction bindings)
  case Nil
  show ?case by simp
next
  case (Cons b bindings)
  obtain vd val where b: "b = Binding vd val" by (cases b)
  have "size_list size (procBody val) \<le> size val" by (rule size_procBody)
  with Cons b show ?case by simp
qed

lemma size_list_bval_less:
  "3 * size_list (size \<circ> bval) bindings < Suc (3 * size_list size bindings + k)"
  using size_list_bval [of bindings] by simp

lemma size_list_procBody_less:
  "3 * size_list (size_list size \<circ> (procBody \<circ> bval)) bindings
     < Suc (3 * size_list size bindings + k)"
  using size_list_procBody [of bindings] by simp

function (sequential)
    typeofExp :: "printers \<Rightarrow> Parsed \<Rightarrow> TEnv \<Rightarrow> TExp Result"
and typeofExps :: "printers \<Rightarrow> Parsed list \<Rightarrow> TEnv \<Rightarrow> TExp Result"
and typeofIf :: "printers \<Rightarrow> Parsed \<Rightarrow> Parsed \<Rightarrow> Parsed \<Rightarrow> TEnv \<Rightarrow> TExp Result"
and typeofProc :: "printers \<Rightarrow> VarDecl list \<Rightarrow> Parsed list \<Rightarrow> TExp \<Rightarrow> TEnv \<Rightarrow> TExp Result"
and typeofApp :: "printers \<Rightarrow> Parsed \<Rightarrow> Parsed list \<Rightarrow> TEnv \<Rightarrow> TExp Result"
and typeofApp_rands :: "printers \<Rightarrow> Parsed \<Rightarrow> TEnv \<Rightarrow> Parsed list \<Rightarrow> TExp list \<Rightarrow> Substitution \<Rightarrow> Substitution Result"
and typeofLet :: "printers \<Rightarrow> Binding list \<Rightarrow> Parsed list \<Rightarrow> TEnv \<Rightarrow> TExp Result"
and typeofLet_constraints :: "printers \<Rightarrow> Parsed \<Rightarrow> TEnv \<Rightarrow> TExp list \<Rightarrow> Parsed list \<Rightarrow> bool list Result"
and typeofLetrec :: "printers \<Rightarrow> Binding list \<Rightarrow> Parsed list \<Rightarrow> TEnv \<Rightarrow> TExp Result"
and typeofLetrec_types :: "printers \<Rightarrow> Parsed list list \<Rightarrow> TEnv list \<Rightarrow> TExp list Result"
and typeofDefine :: "printers \<Rightarrow> VarDecl \<Rightarrow> Parsed \<Rightarrow> TEnv \<Rightarrow> TExp Result"
and typeofProgram :: "printers \<Rightarrow> Parsed list \<Rightarrow> TExp Result"
and recur :: "printers \<Rightarrow> Parsed list \<Rightarrow> TEnv \<Rightarrow> TExp Result"
where
  "typeofExp P (NumExp n) tenv = makeOk typeofNum"
| "typeofExp P (BoolExp b) tenv = makeOk typeofBool"
| "typeofExp P (StrExp s) tenv = makeOk typeofStr"
| "typeofExp P (PrimOp op) tenv = typeofPrim P (PrimOp op)"
| "typeofExp P (VarRef v) tenv = applyTEnv P tenv v"
| "typeofExp P (IfExp test thn alt) tenv = typeofIf P test thn alt tenv"
| "typeofExp P (ProcExp args body returnTE) tenv = typeofProc P args body returnTE tenv"
| "typeofExp P (AppExp rator rands) tenv = typeofApp P rator rands tenv"
| "typeofExp P (LetExp bindings body) tenv = typeofLet P bindings body tenv"
| "typeofExp P (LetrecExp bindings body) tenv = typeofLetrec P bindings body tenv"
| "typeofExp P (DefineExp vd val) tenv = typeofDefine P vd val tenv"
| "typeofExp P (Program exps) tenv = typeofProgram P exps"
| "typeofExp P (LitExp val) tenv = typeofLit (LitExp val)"
| "typeofExp P (SetExp v val) tenv = makeFailure (''Unknown type: '' @ format P (SetExp v val))"

| "typeofExps P [] tenv = makeFailure ''Unexpected empty list of expressions''"
| "typeofExps P (first # rest) tenv =
     (if rest = [] then typeofExp P first tenv
      else bind_result (typeofExp P first tenv) (\<lambda>_. typeofExps P rest tenv))"

| "typeofIf P test thn alt tenv =
     (let testTE = typeofExp P test tenv;
          thenTE = typeofExp P thn tenv;
          altTE = typeofExp P alt tenv;
          constraint1 = bind_result testTE (\<lambda>testTE.
                          checkEqualType P testTE BoolTExp (IfExp test thn alt));
          constraint2 = bind_result thenTE (\<lambda>thenTE.
                          bind_result altTE (\<lambda>altTE.
                            checkEqualType P thenTE altTE (IfExp test thn alt)))
      in bind_result constraint1 (\<lambda>_.
           bind_result constraint2 (\<lambda>_. thenTE)))"

| "typeofProc P args body returnTE tenv =
     (let argsTEs = map texp args;
          extTEnv = makeExtendTEnv (map var args) argsTEs tenv;
          constraint1 = bind_result (typeofExps P body extTEnv) (\<lambda>bodyTE.
                          checkEqualType P bodyTE returnTE (ProcExp args body returnTE))
      in bind_result constraint1 (\<lambda>_. makeOk (ProcTExp argsTEs returnTE)))"

| "typeofApp P rator rands tenv =
     bind_result (typeofExp P rator tenv) (\<lambda>ratorTE.
       case ratorTE of
         ProcTExp paramTEs returnTE \<Rightarrow>
           if length rands \<noteq> length paramTEs
           then bind_result (unparse P (AppExp rator rands)) (\<lambda>exp.
                  makeFailure (''Wrong parameter numbers passed to proc: '' @ exp))
           else bind_result (typeofApp_rands P (AppExp rator rands) tenv rands paramTEs Map.empty)
                  (\<lambda>substitution. makeOk (substituteTypeVars returnTE substitution))
       | _ \<Rightarrow>
           bind_result (unparseTExp P ratorTE) (\<lambda>rator'.
             bind_result (unparse P (AppExp rator rands)) (\<lambda>exp.
               makeFailure (''Application of non-procedure: '' @ rator' @ '' in '' @ exp))))"

| "typeofApp_rands P app tenv [] paramTEs substitution = makeOk substitution"
| "typeofApp_rands P app tenv (rand # rands) (paramTE # paramTEs) substitution =
     (case typeofExp P rand tenv of
        Inl message \<Rightarrow> Inl message
      | Inr randTE \<Rightarrow>
          (case unifyTypes paramTE randTE substitution of
             (False, substitution') \<Rightarrow>
               bind_result (unparse P app) (\<lambda>exp.
                 makeFailure (''Type mismatch in application: '' @ exp))
           | (True, substitution') \<Rightarrow>
               typeofApp_rands P app tenv rands paramTEs substitution'))"

| "typeofLet P bindings body tenv =
     (let vars = map (\<lambda>b. var (bvar b)) bindings;
          vals = map (\<lambda>b. bval b) bindings;
          varTEs = map (\<lambda>b. texp (bvar b)) bindings;
          constraints = typeofLet_constraints P (LetExp bindings body) tenv varTEs vals
      in bind_result constraints (\<lambda>_. typeofExps P body (makeExtendTEnv vars varTEs tenv)))"

| "typeofLet_constraints P exp tenv [] vals = makeOk []"
| "typeofLet_constraints P exp tenv (varTE # varTEs) [] = makeOk []"
| "typeofLet_constraints P exp tenv (varTE # varTEs) (val # vals) =
     bind_result (bind_result (typeofExp P val tenv) (\<lambda>typeOfVal.
                    checkEqualType P varTE typeOfVal exp)) (\<lambda>c.
       bind_result (typeofLet_constraints P exp tenv varTEs vals) (\<lambda>cs. makeOk (c # cs)))"

| "typeofLetrec P bindings body tenv =
     (let ps = map (\<lambda>b. var (bvar b)) bindings;
          procs = map (\<lambda>b. bval b) bindings
      in if \<not> list_all isProcExp procs
         then makeFailure (''letrec - only support binding of procedures - ''
                            @ format P (LetrecExp bindings body))
         else
          (let paramss = map procArgs procs;
               bodies = map procBody procs;
               tijs = map (\<lambda>params. map texp params) paramss;
               tis = map procReturnTE procs;
               tenvBody = makeExtendTEnv ps (map2 (\<lambda>tij ti. ProcTExp tij ti) tijs tis) tenv;
               tenvIs = map2 (\<lambda>params tij. makeExtendTEnv (map var params) tij tenvBody)
                          paramss tijs;
               types = typeofLetrec_types P bodies tenvIs;
               constraints = bind_result types (\<lambda>types.
                               zipWithResult (\<lambda>typeI ti.
                                 checkEqualType P typeI ti (LetrecExp bindings body)) types tis)
           in bind_result constraints (\<lambda>_. typeofExps P body tenvBody)))"

| "typeofLetrec_types P [] tenvIs = makeOk []"
| "typeofLetrec_types P (bodyI # bodies) [] = makeOk []"
| "typeofLetrec_types P (bodyI # bodies) (tenvI # tenvIs) =
     bind_result (typeofExps P bodyI tenvI) (\<lambda>typeI.
       bind_result (typeofLetrec_types P bodies tenvIs) (\<lambda>typeIs. makeOk (typeI # typeIs)))"

| "typeofDefine P vd val tenv =
     (let valTE = typeofExp P val tenv;
          constraint = bind_result valTE (\<lambda>valType.
                         checkEqualType P valType (texp vd) (DefineExp vd val))
      in if isOk constraint then makeOk VoidTExp
         else makeFailure (''VarDecl type different from val type, types:''
                 @ (case valTE of Inr valType \<Rightarrow> js_String (unparseTExp P valType)
                                | Inl _ \<Rightarrow> ''unknown'')
                 @ '' and '' @ js_String (unparseTExp P (texp vd))))"

| "typeofProgram P exps = recur P exps makeEmptyTEnv"

| "recur P [] env = makeOk VoidTExp"
| "recur P (e # remaining) env =
     (if remaining = [] then typeofExp P e env
      else case e of
        DefineExp vd val \<Rightarrow>
          bind_result (typeofDefine P vd val env) (\<lambda>_.
            recur P remaining (makeExtendTEnv [var vd] [texp vd] env))
      | _ \<Rightarrow> bind_result (typeofExp P e env) (\<lambda>_. recur P remaining env))"
  by pat_completeness auto

termination
  apply (relation "measure
     (case_sum
       (case_sum
         (case_sum (\<lambda>(P, e, tenv). 3 * size e)
           (case_sum (\<lambda>(P, exps, tenv). 3 * size_list size exps)
                     (\<lambda>(P, test, thn, alt, tenv). 3 * (size test + size thn + size alt) + 1)))
         (case_sum (\<lambda>(P, args, body, returnTE, tenv). 3 * size_list size body + 1)
           (case_sum (\<lambda>(P, rator, rands, tenv). 3 * (size rator + size_list size rands) + 2)
                     (\<lambda>(P, app, tenv, rands, paramTEs, s). 3 * size_list size rands + 1))))
       (case_sum
         (case_sum (\<lambda>(P, bindings, body, tenv). 3 * (size_list size bindings + size_list size body) + 2)
           (case_sum (\<lambda>(P, exp, tenv, varTEs, vals). 3 * size_list size vals + 1)
                     (\<lambda>(P, bindings, body, tenv). 3 * (size_list size bindings + size_list size body) + 2)))
         (case_sum
           (case_sum (\<lambda>(P, bodies, tenvIs). 3 * size_list (size_list size) bodies + 1)
                     (\<lambda>(P, vd, val, tenv). 3 * size val + 1))
           (case_sum (\<lambda>(P, exps). 3 * size_list size exps + 2)
                     (\<lambda>(P, exps, tenv). 3 * size_list size exps + 1)))))")
  apply (simp_all add: size_list_bval_less size_list_procBody_less)
  done

text \<open>
  The rules that take their arguments as they are unfold at every occurrence; they are
  unfolded by name where a proof needs it.
\<close>

lemmas rule_simps =
  typeofIf.simps typeofProc.simps typeofApp.simps typeofLet.simps typeofLetrec.simps
  typeofDefine.simps typeofProgram.simps

declare rule_simps [simp del]

subsection \<open>The textual entry points\<close>

definition L5typeof :: "printers \<Rightarrow> string \<Rightarrow> string Result" where
  "L5typeof P concreteExp =
     bind_result (parseExp P concreteExp) (\<lambda>e.
       bind_result (typeofExp P e makeEmptyTEnv) (unparseTExp P))"

definition L5programTypeof :: "printers \<Rightarrow> string \<Rightarrow> string Result" where
  "L5programTypeof P exp =
     (if length exp \<ge> 5 \<and> take 4 exp = ''(L5 '' \<and> drop (length exp - 1) exp = '')''
      then bind_result (parseProgram P exp) (\<lambda>prog.
             bind_result (typeofProgram P prog) (unparseTExp P))
      else makeFailure (''Invalid L5 program: '' @ exp))"

section \<open>Notions used to state the properties\<close>

text \<open>
  A sample instance of the external collaborators, used to evaluate the rules at concrete
  inputs. Its type parser returns, for each literal that \<^verbatim>\<open>typeofPrim\<close> passes, the type
  expression that the literal spells; its two other parsers know one text each.
\<close>

definition sampleParseTE :: "string \<Rightarrow> TExp Result" where
  "sampleParseTE s =
    (if s = ''(number * number -> number)'' then makeOk (ProcTExp [NumTExp, NumTExp] NumTExp)
     else if s = ''(number * number -> boolean)'' then makeOk (ProcTExp [NumTExp, NumTExp] BoolTExp)
     else if s = ''(boolean * boolean -> boolean)'' then makeOk (ProcTExp [BoolTExp, BoolTExp] BoolTExp)
     else if s = ''(T -> boolean)'' then makeOk (ProcTExp [TVar ''T''] BoolTExp)
     else if s = ''(boolean -> boolean)'' then makeOk (ProcTExp [BoolTExp] BoolTExp)
     else if s = ''(T1 * T2 -> boolean)'' then makeOk (ProcTExp [TVar ''T1'', TVar ''T2''] BoolTExp)
     else if s = ''(T -> void)'' then makeOk (ProcTExp [TVar ''T''] VoidTExp)
     else if s = ''(Empty -> void)'' then makeOk (ProcTExp [] VoidTExp)
     else if s = ''(T1 * T2 -> (Pair T1 T2))''
       then makeOk (ProcTExp [TVar ''T1'', TVar ''T2''] (PairTExp (TVar ''T1'') (TVar ''T2'')))
     else if s = ''((Pair T1 T2) -> T1)''
       then makeOk (ProcTExp [PairTExp (TVar ''T1'') (TVar ''T2'')] (TVar ''T1''))
     else if s = ''((Pair T1 T2) -> T2)''
       then makeOk (ProcTExp [PairTExp (TVar ''T1'') (TVar ''T2'')] (TVar ''T2''))
     else makeFailure (''Unexpected TExp - '' @ s))"

definition samplePrinters :: printers where
  "samplePrinters =
     \<lparr> unparseTExp = (\<lambda>te. makeOk ''<texp>''),
       unparse = (\<lambda>e. makeOk ''<exp>''),
       format = (\<lambda>e. ''<exp>''),
       unboundMessage = (\<lambda>v. ''var not found: '' @ v),
       parseTE = sampleParseTE,
       parseExp = (\<lambda>s. if s = ''(define (x : number) list)''
                           then makeOk (DefineExp \<lparr>var = ''x'', texp = NumTExp\<rparr> (PrimOp ''list''))
                           else makeFailure ''parse error''),
       parseProgram = (\<lambda>s. if s = ''(L5 y)'' then makeOk [VarRef ''y'']
                               else makeFailure ''parse error'') \<rparr>"

text \<open>
  The type that the runtime tag of a quoted value stands for, in the words of the spec:
  number gives Number, boolean gives Boolean, string gives String, a symbol or a nested
  compound gives Literal.
\<close>

fun tagType :: "SExpValue \<Rightarrow> TExp" where
  "tagType (SNumber n) = NumTExp"
| "tagType (SBoolean b) = BoolTExp"
| "tagType (SString s) = StrTExp"
| "tagType v = LiteralTExp"

text \<open>
  The running environment of a program after some of its forms: each define among them
  has added one frame with its declared type, the other forms have added nothing.
\<close>

fun programEnv :: "Parsed list \<Rightarrow> TEnv \<Rightarrow> TEnv" where
  "programEnv [] env = env"
| "programEnv (DefineExp vd val # forms) env =
     programEnv forms (makeExtendTEnv [var vd] [texp vd] env)"
| "programEnv (e # forms) env = programEnv forms env"

text \<open>The type that the defines among the forms give a name: the latest define wins.\<close>

fun definedType :: "Parsed list \<Rightarrow> string \<Rightarrow> TExp option" where
  "definedType [] x = None"
| "definedType (DefineExp vd val # forms) x =
     (case definedType forms x of
        Some te \<Rightarrow> Some te
      | None \<Rightarrow> if var vd = x then Some (texp vd) else None)"
| "definedType (e # forms) x = definedType forms x"

text \<open>Whether an environment binds a name, in some frame.\<close>

fun boundIn :: "TEnv \<Rightarrow> string \<Rightarrow> bool" where
  "boundIn EmptyTEnv v = False"
| "boundIn (ExtendTEnv vars texps tenv) v =
     (map_of (zip vars texps) v \<noteq> None \<or> boundIn tenv v)"

text \<open>
  The frame of a \<^verbatim>\<open>let\<close>: all its names at once, each with its declared type. A binding
  is valid in an environment when its value has the declared type there.
\<close>

definition letTEnv :: "Binding list \<Rightarrow> TEnv \<Rightarrow> TEnv" where
  "letTEnv bindings tenv =
     makeExtendTEnv (map (\<lambda>b. var (bvar b)) bindings) (map (\<lambda>b. texp (bvar b)) bindings) tenv"

definition validBinding :: "printers \<Rightarrow> TEnv \<Rightarrow> Binding \<Rightarrow> bool" where
  "validBinding P tenv b \<longleftrightarrow> typeofExp P (bval b) tenv = makeOk (texp (bvar b))"

text \<open>
  The frame of a \<^verbatim>\<open>letrec\<close>: every bound name with the arrow type made of the declared
  parameter types and the declared return type of its procedure; and the frame of one
  procedure's parameters on top of it.
\<close>

definition letrecTEnv :: "Binding list \<Rightarrow> TEnv \<Rightarrow> TEnv" where
  "letrecTEnv bindings tenv =
     makeExtendTEnv (map (\<lambda>b. var (bvar b)) bindings)
       (map (\<lambda>b. ProcTExp (map texp (procArgs (bval b))) (procReturnTE (bval b))) bindings)
       tenv"

definition procTEnv :: "Parsed \<Rightarrow> TEnv \<Rightarrow> TEnv" where
  "procTEnv proc tenvBody =
     makeExtendTEnv (map var (procArgs proc)) (map texp (procArgs proc)) tenvBody"

text \<open>
  In the words of the spec: the parameter types are unified with the types of the rands
  position by position, in order, each step starting from the substitution that the steps
  before it left; the first position that does not unify ends it.
\<close>

fun unifyInOrder :: "TExp list \<Rightarrow> TExp list \<Rightarrow> Substitution \<Rightarrow> bool \<times> Substitution" where
  "unifyInOrder [] randTEs substitution = (True, substitution)"
| "unifyInOrder (paramTE # paramTEs) [] substitution = (True, substitution)"
| "unifyInOrder (paramTE # paramTEs) (randTE # randTEs) substitution =
     (if fst (unifyTypes paramTE randTE substitution)
      then unifyInOrder paramTEs randTEs (snd (unifyTypes paramTE randTE substitution))
      else (False, snd (unifyTypes paramTE randTE substitution)))"

text \<open>The failure of an application whose rand does not unify with its parameter type.\<close>

definition mismatchFailure :: "printers \<Rightarrow> Parsed \<Rightarrow> Substitution Result" where
  "mismatchFailure P app =
     bind_result (unparse P app) (\<lambda>exp. makeFailure (''Type mismatch in application: '' @ exp))"

text \<open>The names of the type variables of a type expression.\<close>

fun typeVars :: "TExp \<Rightarrow> string set" where
  "typeVars (TVar v) = {v}"
| "typeVars (PairTExp first second) = typeVars first \<union> typeVars second"
| "typeVars (ProcTExp paramTEs returnTE) = (\<Union>p \<in> set paramTEs. typeVars p) \<union> typeVars returnTE"
| "typeVars te = {}"

text \<open>A sample pair of mutually recursive procedures.\<close>

definition evenOdd :: "Binding list" where
  "evenOdd =
    [Binding \<lparr>var = ''even?'', texp = ProcTExp [NumTExp] BoolTExp\<rparr>
       (ProcExp [\<lparr>var = ''n'', texp = NumTExp\<rparr>]
          [IfExp (AppExp (PrimOp ''='') [VarRef ''n'', NumExp 0]) (BoolExp True)
             (AppExp (VarRef ''odd?'') [AppExp (PrimOp ''-'') [VarRef ''n'', NumExp 1]])]
          BoolTExp),
     Binding \<lparr>var = ''odd?'', texp = ProcTExp [NumTExp] BoolTExp\<rparr>
       (ProcExp [\<lparr>var = ''n'', texp = NumTExp\<rparr>]
          [IfExp (AppExp (PrimOp ''='') [VarRef ''n'', NumExp 0]) (BoolExp False)
             (AppExp (VarRef ''even?'') [AppExp (PrimOp ''-'') [VarRef ''n'', NumExp 1]])]
          BoolTExp)]"

section \<open>Properties\<close>

subsection \<open>Results\<close>

lemma bind_result_Inl [simp]: "bind_result (Inl m) f = Inl m"
  by (simp add: bind_result_def)

lemma bind_result_Inr [simp]: "bind_result (Inr v) f = f v"
  by (simp add: bind_result_def)

lemma isOk_Inr [simp]: "isOk (Inr v)"
  by (simp add: isOk_def)

lemma isOk_Inl [simp]: "\<not> isOk (Inl m)"
  by (simp add: isOk_def)

lemma isOk_iff: "isOk r \<longleftrightarrow> (\<exists>v. r = Inr v)"
  by (cases r) simp_all

lemma not_isOk_iff: "\<not> isOk r \<longleftrightarrow> (\<exists>m. r = Inl m)"
  by (cases r) simp_all

subsection \<open>The rules, one by one\<close>

lemma checkEqualType_refl [simp]: "checkEqualType P te te exp = makeOk True"
  by (simp add: checkEqualType_def)

lemma checkEqualType_neq: "te1 \<noteq> te2 \<Longrightarrow> \<not> isOk (checkEqualType P te1 te2 exp)"
  by (simp add: checkEqualType_def bind_result_def isOk_def split: sum.splits)

lemma isOk_checkEqualType [simp]: "isOk (checkEqualType P te1 te2 exp) \<longleftrightarrow> te1 = te2"
  using checkEqualType_neq [of te1 te2 P exp] by (cases "te1 = te2") simp_all

lemma isOk_bind_result:
  "isOk (bind_result r f) \<longleftrightarrow> (\<exists>v. r = makeOk v \<and> isOk (f v))"
  by (cases r) simp_all

subsection \<open>Sequences\<close>

lemma typeofExps_Cons_ok:
  "isOk (typeofExp P e tenv) \<Longrightarrow> rest \<noteq> [] \<Longrightarrow> typeofExps P (e # rest) tenv = typeofExps P rest tenv"
  by (auto simp: isOk_iff)

lemma typeofExps_first_failure:
  "\<forall>x \<in> set pre. isOk (typeofExp P x tenv) \<Longrightarrow> typeofExp P e tenv = makeFailure message \<Longrightarrow>
   typeofExps P (pre @ e # post) tenv = makeFailure message"
proof (induction pre)
  case Nil
  then show ?case by simp
next
  case (Cons x pre)
  then have "typeofExps P (x # (pre @ e # post)) tenv = typeofExps P (pre @ e # post) tenv"
    by (intro typeofExps_Cons_ok) simp_all
  with Cons show ?case by simp
qed

lemma typeofExps_last:
  "\<forall>x \<in> set pre. isOk (typeofExp P x tenv) \<Longrightarrow>
   typeofExps P (pre @ [e]) tenv = typeofExp P e tenv"
proof (induction pre)
  case Nil
  then show ?case by simp
next
  case (Cons x pre)
  then have "typeofExps P (x # (pre @ [e])) tenv = typeofExps P (pre @ [e]) tenv"
    by (intro typeofExps_Cons_ok) simp_all
  with Cons show ?case by simp
qed

subsection \<open>Conditionals\<close>

lemma typeofIf_test_failure:
  "typeofExp P test tenv = makeFailure message \<Longrightarrow>
   typeofIf P test thn alt tenv = makeFailure message"
  by (simp add: rule_simps Let_def)

lemma typeofIf_then_failure:
  "typeofExp P test tenv = makeOk BoolTExp \<Longrightarrow> typeofExp P thn tenv = makeFailure message \<Longrightarrow>
   typeofIf P test thn alt tenv = makeFailure message"
  by (simp add: rule_simps Let_def)

lemma typeofIf_alt_failure:
  "typeofExp P test tenv = makeOk BoolTExp \<Longrightarrow> typeofExp P thn tenv = makeOk te \<Longrightarrow>
   typeofExp P alt tenv = makeFailure message \<Longrightarrow>
   typeofIf P test thn alt tenv = makeFailure message"
  by (simp add: rule_simps Let_def)

subsection \<open>Procedures\<close>

lemma typeofProc_body_failure:
  "typeofExps P body (makeExtendTEnv (map var args) (map texp args) tenv) = makeFailure message \<Longrightarrow>
   typeofProc P args body returnTE tenv = makeFailure message"
  by (simp add: rule_simps Let_def)

subsection \<open>Definitions\<close>

lemma typeofDefine_equal:
  "typeofExp P val tenv = makeOk (texp vd) \<Longrightarrow> typeofDefine P vd val tenv = makeOk VoidTExp"
  by (simp add: rule_simps Let_def)

lemma typeofDefine_mismatch:
  "typeofExp P val tenv = makeOk valType \<Longrightarrow> valType \<noteq> texp vd \<Longrightarrow>
   typeofDefine P vd val tenv =
     makeFailure ''VarDecl type different from val type, types:[object Object] and [object Object]''"
  by (simp add: rule_simps Let_def js_String_def)

lemma typeofDefine_val_failure:
  "typeofExp P val tenv = makeFailure message \<Longrightarrow>
   typeofDefine P vd val tenv =
     makeFailure (''VarDecl type different from val type, types:unknown and ''
                   @ js_String (unparseTExp P (texp vd)))"
  by (simp add: rule_simps Let_def)

subsection \<open>Programs\<close>

lemma programEnv_append:
  "programEnv (pre @ post) env = programEnv post (programEnv pre env)"
  by (induction pre env rule: programEnv.induct) simp_all

lemma recur_Cons_failure:
  assumes "typeofExp P e env = makeFailure message"
  shows "recur P (e # remaining) env = makeFailure message"
proof (cases "remaining = []")
  case True
  with assms show ?thesis by simp
next
  case False
  have "(case e of
        DefineExp vd val \<Rightarrow>
          bind_result (typeofDefine P vd val env) (\<lambda>_.
            recur P remaining (makeExtendTEnv [var vd] [texp vd] env))
      | _ \<Rightarrow> bind_result (typeofExp P e env) (\<lambda>_. recur P remaining env)) = makeFailure message"
    using assms by (cases e) simp_all
  with False show ?thesis by simp
qed

lemma recur_Cons_ok:
  assumes "isOk (typeofExp P e env)" and "remaining \<noteq> []"
  shows "recur P (e # remaining) env = recur P remaining (programEnv [e] env)"
proof -
  from assms(1) obtain te where te: "typeofExp P e env = makeOk te"
    by (auto simp: isOk_iff)
  have "(case e of
        DefineExp vd val \<Rightarrow>
          bind_result (typeofDefine P vd val env) (\<lambda>_.
            recur P remaining (makeExtendTEnv [var vd] [texp vd] env))
      | _ \<Rightarrow> bind_result (typeofExp P e env) (\<lambda>_. recur P remaining env))
      = recur P remaining (programEnv [e] env)"
    using te by (cases e) simp_all
  with assms(2) show ?thesis by simp
qed

lemma programEnv_snoc_env:
  "programEnv (take i pre) (programEnv [e] env) = programEnv (take (Suc i) (e # pre)) env"
  using programEnv_append [of "[e]" "take i pre" env] by simp

lemma recur_last:
  "\<forall>i < length pre. isOk (typeofExp P (pre ! i) (programEnv (take i pre) env)) \<Longrightarrow>
   recur P (pre @ [final]) env = typeofExp P final (programEnv pre env)"
proof (induction pre arbitrary: env)
  case Nil
  show ?case by simp
next
  case (Cons e pre)
  from Cons.prems have "isOk (typeofExp P ((e # pre) ! 0) (programEnv (take 0 (e # pre)) env))"
    by blast
  then have e: "isOk (typeofExp P e env)" by simp
  have rest: "\<forall>i < length pre. isOk (typeofExp P (pre ! i) (programEnv (take i pre) (programEnv [e] env)))"
  proof (intro allI impI)
    fix i assume "i < length pre"
    then have "Suc i < length (e # pre)" by simp
    with Cons.prems have "isOk (typeofExp P ((e # pre) ! Suc i) (programEnv (take (Suc i) (e # pre)) env))"
      by blast
    then show "isOk (typeofExp P (pre ! i) (programEnv (take i pre) (programEnv [e] env)))"
      by (simp only: programEnv_snoc_env nth_Cons_Suc)
  qed
  have "recur P ((e # pre) @ [final]) env = recur P (pre @ [final]) (programEnv [e] env)"
    using recur_Cons_ok [OF e, of "pre @ [final]"] by simp
  also have "\<dots> = typeofExp P final (programEnv pre (programEnv [e] env))"
    by (rule Cons.IH [OF rest])
  also have "\<dots> = typeofExp P final (programEnv (e # pre) env)"
    using programEnv_append [of "[e]" pre env] by simp
  finally show ?case .
qed

lemma recur_first_failure:
  "\<forall>i < length pre. isOk (typeofExp P (pre ! i) (programEnv (take i pre) env)) \<Longrightarrow>
   typeofExp P e (programEnv pre env) = makeFailure message \<Longrightarrow>
   recur P (pre @ e # post) env = makeFailure message"
proof (induction pre arbitrary: env)
  case Nil
  then have "typeofExp P e env = makeFailure message" by simp
  then have "recur P (e # post) env = makeFailure message" by (rule recur_Cons_failure)
  then show ?case by simp
next
  case (Cons x pre)
  from Cons.prems(1) have "isOk (typeofExp P ((x # pre) ! 0) (programEnv (take 0 (x # pre)) env))"
    by blast
  then have x: "isOk (typeofExp P x env)" by simp
  have rest: "\<forall>i < length pre. isOk (typeofExp P (pre ! i) (programEnv (take i pre) (programEnv [x] env)))"
  proof (intro allI impI)
    fix i assume "i < length pre"
    then have "Suc i < length (x # pre)" by simp
    with Cons.prems(1) have "isOk (typeofExp P ((x # pre) ! Suc i) (programEnv (take (Suc i) (x # pre)) env))"
      by blast
    then show "isOk (typeofExp P (pre ! i) (programEnv (take i pre) (programEnv [x] env)))"
      by (simp only: programEnv_snoc_env nth_Cons_Suc)
  qed
  have fail: "typeofExp P e (programEnv pre (programEnv [x] env)) = makeFailure message"
    using Cons.prems(2) programEnv_append [of "[x]" pre env] by simp
  have "recur P ((x # pre) @ e # post) env = recur P (pre @ e # post) (programEnv [x] env)"
    using recur_Cons_ok [OF x, of "pre @ e # post"] by simp
  also have "\<dots> = makeFailure message"
    by (rule Cons.IH [OF rest fail])
  finally show ?case .
qed

lemma applyTEnv_programEnv:
  "applyTEnv P (programEnv forms env) x =
     (case definedType forms x of Some te \<Rightarrow> makeOk te | None \<Rightarrow> applyTEnv P env x)"
  by (induction forms env rule: programEnv.induct) (simp_all split: option.splits)

subsection \<open>Let\<close>

lemma typeofLet_constraints_Cons_valid:
  "validBinding P tenv b \<Longrightarrow>
   typeofLet_constraints P exp tenv (texp (bvar b) # varTEs) (bval b # vals) =
     bind_result (typeofLet_constraints P exp tenv varTEs vals) (\<lambda>cs. makeOk (True # cs))"
  by (simp add: validBinding_def)

lemma typeofLet_constraints_valid:
  "\<forall>b \<in> set bindings. validBinding P tenv b \<Longrightarrow>
   typeofLet_constraints P exp tenv (map (\<lambda>b. texp (bvar b)) bindings) (map bval bindings)
     = makeOk (map (\<lambda>b. True) bindings)"
proof (induction bindings)
  case Nil
  show ?case by simp
next
  case (Cons b bindings)
  then have b: "validBinding P tenv b" and IH: "typeofLet_constraints P exp tenv
      (map (\<lambda>b. texp (bvar b)) bindings) (map bval bindings) = makeOk (map (\<lambda>b. True) bindings)"
    by simp_all
  show ?case
    using typeofLet_constraints_Cons_valid [OF b, of exp "map (\<lambda>b. texp (bvar b)) bindings" "map bval bindings"] IH
    by simp
qed

lemma typeofLet_constraints_first_invalid:
  assumes pre: "\<forall>b \<in> set pre. validBinding P tenv b"
    and b: "bind_result (typeofExp P (bval b) tenv) (\<lambda>typeOfVal.
              checkEqualType P (texp (bvar b)) typeOfVal exp) = makeFailure message"
  shows "typeofLet_constraints P exp tenv (map (\<lambda>b. texp (bvar b)) (pre @ b # post))
           (map bval (pre @ b # post)) = makeFailure message"
  using pre
proof (induction pre)
  case Nil
  show ?case using b by simp
next
  case (Cons x pre)
  then have x: "validBinding P tenv x" and IH: "typeofLet_constraints P exp tenv
      (map (\<lambda>b. texp (bvar b)) (pre @ b # post)) (map bval (pre @ b # post)) = makeFailure message"
    by simp_all
  show ?case
    using typeofLet_constraints_Cons_valid [OF x, of exp "map (\<lambda>b. texp (bvar b)) (pre @ b # post)"
        "map bval (pre @ b # post)"] IH
    by simp
qed

lemma typeofLet_valid:
  assumes "\<forall>b \<in> set bindings. validBinding P tenv b"
  shows "typeofLet P bindings body tenv = typeofExps P body (letTEnv bindings tenv)"
  using typeofLet_constraints_valid [OF assms, of "LetExp bindings body"]
  by (simp add: typeofLet.simps Let_def letTEnv_def)

lemma typeofLet_value_failure:
  assumes "\<forall>b \<in> set pre. validBinding P tenv b"
    and "typeofExp P (bval b) tenv = makeFailure message"
  shows "typeofLet P (pre @ b # post) body tenv = makeFailure message"
proof -
  have "bind_result (typeofExp P (bval b) tenv) (\<lambda>typeOfVal.
          checkEqualType P (texp (bvar b)) typeOfVal (LetExp (pre @ b # post) body))
        = makeFailure message"
    using assms(2) by simp
  from typeofLet_constraints_first_invalid [OF assms(1) this]
  show ?thesis by (simp add: typeofLet.simps Let_def)
qed

lemma checkEqualType_failure:
  "te1 \<noteq> te2 \<Longrightarrow> \<exists>message. checkEqualType P te1 te2 exp = makeFailure message"
  by (simp add: checkEqualType_def bind_result_def split: sum.splits)

lemma typeofLet_value_mismatch:
  assumes "\<forall>b \<in> set pre. validBinding P tenv b"
    and "typeofExp P (bval b) tenv = makeOk te" and "te \<noteq> texp (bvar b)"
  shows "\<not> isOk (typeofLet P (pre @ b # post) body tenv)"
proof -
  from assms(3) obtain message
    where m: "checkEqualType P (texp (bvar b)) te (LetExp (pre @ b # post) body) = makeFailure message"
    using checkEqualType_failure [of "texp (bvar b)" te] by auto
  have "bind_result (typeofExp P (bval b) tenv) (\<lambda>typeOfVal.
          checkEqualType P (texp (bvar b)) typeOfVal (LetExp (pre @ b # post) body))
        = makeFailure message"
    using assms(2) m by simp
  from typeofLet_constraints_first_invalid [OF assms(1) this]
  show ?thesis by (simp add: typeofLet.simps Let_def)
qed

lemma applyTEnv_unbound:
  "\<not> boundIn tenv v \<Longrightarrow> applyTEnv P tenv v = makeFailure (unboundMessage P v)"
  by (induction tenv) simp_all

lemma applyTEnv_bound: "boundIn tenv v \<Longrightarrow> isOk (applyTEnv P tenv v)"
  by (induction tenv) (auto split: option.splits)

subsection \<open>Letrec\<close>

lemma map2_map_map: "map2 f (map g xs) (map h xs) = map (\<lambda>x. f (g x) (h x)) xs"
  by (induction xs) simp_all

lemma typeofLetrec_types_ok:
  "\<forall>p \<in> set procs. typeofExps P (procBody p) (envOf p) = makeOk (typeOf p) \<Longrightarrow>
   typeofLetrec_types P (map procBody procs) (map envOf procs) = makeOk (map typeOf procs)"
  by (induction procs) simp_all

lemma typeofLetrec_types_failure:
  "\<exists>p \<in> set procs. \<not> isOk (typeofExps P (procBody p) (envOf p)) \<Longrightarrow>
   \<not> isOk (typeofLetrec_types P (map procBody procs) (map envOf procs))"
proof (induction procs)
  case Nil
  then show ?case by simp
next
  case (Cons p procs)
  show ?case
  proof (cases "typeofExps P (procBody p) (envOf p)")
    case (Inl message)
    then show ?thesis by simp
  next
    case (Inr te)
    with Cons.prems have "\<exists>p \<in> set procs. \<not> isOk (typeofExps P (procBody p) (envOf p))"
      by auto
    then have "\<not> isOk (typeofLetrec_types P (map procBody procs) (map envOf procs))"
      by (rule Cons.IH)
    then obtain message
      where "typeofLetrec_types P (map procBody procs) (map envOf procs) = makeFailure message"
      by (auto simp: not_isOk_iff)
    with Inr show ?thesis by simp
  qed
qed

lemma typeofLetrec_types_first_failure:
  "\<forall>p \<in> set pre. isOk (typeofExps P (procBody p) (envOf p)) \<Longrightarrow>
   typeofExps P (procBody q) (envOf q) = makeFailure message \<Longrightarrow>
   typeofLetrec_types P (map procBody (pre @ q # post)) (map envOf (pre @ q # post))
     = makeFailure message"
  by (induction pre) (auto simp: isOk_iff)

lemma zipWithResult_checkEqualType_same:
  "zipWithResult (\<lambda>typeI ti. checkEqualType P typeI ti exp) tes tes = makeOk (map (\<lambda>te. True) tes)"
  by (induction tes) simp_all

lemma zipWithResult_checkEqualType_differ:
  "length tes = length tes' \<Longrightarrow> tes \<noteq> tes' \<Longrightarrow>
   \<not> isOk (zipWithResult (\<lambda>typeI ti. checkEqualType P typeI ti exp) tes tes')"
proof (induction tes tes' rule: list_induct2)
  case Nil
  then show ?case by simp
next
  case (Cons te tes te' tes')
  show ?case
  proof (cases "te = te'")
    case True
    with Cons.prems have "tes \<noteq> tes'" by simp
    then have "\<not> isOk (zipWithResult (\<lambda>typeI ti. checkEqualType P typeI ti exp) tes tes')"
      by (rule Cons.IH)
    then obtain message
      where "zipWithResult (\<lambda>typeI ti. checkEqualType P typeI ti exp) tes tes' = makeFailure message"
      by (auto simp: not_isOk_iff)
    with True show ?thesis by simp
  next
    case False
    then obtain message where "checkEqualType P te te' exp = makeFailure message"
      using checkEqualType_failure by blast
    then show ?thesis by simp
  qed
qed

lemma typeofLetrec_unfold:
  assumes "list_all isProcExp (map bval bindings)"
  shows "typeofLetrec P bindings body tenv =
    bind_result
      (bind_result
        (typeofLetrec_types P (map procBody (map bval bindings))
           (map (\<lambda>p. procTEnv p (letrecTEnv bindings tenv)) (map bval bindings)))
        (\<lambda>types. zipWithResult (\<lambda>typeI ti. checkEqualType P typeI ti (LetrecExp bindings body))
                    types (map procReturnTE (map bval bindings))))
      (\<lambda>_. typeofExps P body (letrecTEnv bindings tenv))"
proof -
  have env: "makeExtendTEnv (map (\<lambda>b. var (bvar b)) bindings)
       (map2 (\<lambda>tij ti. ProcTExp tij ti)
          (map (\<lambda>params. map texp params) (map procArgs (map bval bindings)))
          (map procReturnTE (map bval bindings))) tenv = letrecTEnv bindings tenv"
    by (simp add: letrecTEnv_def map2_map_map [where xs = bindings and f = ProcTExp
          and g = "\<lambda>b. map texp (procArgs (bval b))" and h = "\<lambda>b. procReturnTE (bval b)", symmetric]
        comp_def)
  have envs: "map2 (\<lambda>params tij. makeExtendTEnv (map var params) tij (letrecTEnv bindings tenv))
          (map procArgs (map bval bindings))
          (map (\<lambda>params. map texp params) (map procArgs (map bval bindings)))
        = map (\<lambda>p. procTEnv p (letrecTEnv bindings tenv)) (map bval bindings)"
    by (simp add: procTEnv_def comp_def map2_map_map [where xs = bindings
          and f = "\<lambda>params tij. makeExtendTEnv (map var params) tij (letrecTEnv bindings tenv)"
          and g = "\<lambda>b. procArgs (bval b)" and h = "\<lambda>b. map texp (procArgs (bval b))", symmetric])
  show ?thesis
    using assms by (simp only: typeofLetrec.simps Let_def env envs not_True_eq_False if_False)
qed

lemma typeofLetrec_not_procs:
  "\<not> list_all isProcExp (map bval bindings) \<Longrightarrow>
   typeofLetrec P bindings body tenv =
     makeFailure (''letrec - only support binding of procedures - ''
                   @ format P (LetrecExp bindings body))"
  by (simp add: typeofLetrec.simps Let_def)

lemma typeofLetrec_bodies_agree:
  assumes procs: "list_all isProcExp (map bval bindings)"
    and bodies: "\<forall>b \<in> set bindings.
      typeofExps P (procBody (bval b)) (procTEnv (bval b) (letrecTEnv bindings tenv))
        = makeOk (procReturnTE (bval b))"
  shows "typeofLetrec P bindings body tenv = typeofExps P body (letrecTEnv bindings tenv)"
proof -
  have "\<forall>p \<in> set (map bval bindings).
      typeofExps P (procBody p) (procTEnv p (letrecTEnv bindings tenv)) = makeOk (procReturnTE p)"
    using bodies by simp
  then have "typeofLetrec_types P (map procBody (map bval bindings))
           (map (\<lambda>p. procTEnv p (letrecTEnv bindings tenv)) (map bval bindings))
        = makeOk (map procReturnTE (map bval bindings))"
    by (rule typeofLetrec_types_ok)
  then show ?thesis
    by (simp only: typeofLetrec_unfold [OF procs] bind_result_Inr
          zipWithResult_checkEqualType_same)
qed

lemma typeofLetrec_body_disagrees:
  assumes procs: "list_all isProcExp (map bval bindings)"
    and bad: "\<exists>b \<in> set bindings.
      typeofExps P (procBody (bval b)) (procTEnv (bval b) (letrecTEnv bindings tenv))
        \<noteq> makeOk (procReturnTE (bval b))"
  shows "\<not> isOk (typeofLetrec P bindings body tenv)"
proof -
  let ?envOf = "\<lambda>p. procTEnv p (letrecTEnv bindings tenv)"
  let ?procs = "map bval bindings"
  let ?types = "typeofLetrec_types P (map procBody ?procs) (map ?envOf ?procs)"
  let ?check = "\<lambda>types. zipWithResult (\<lambda>typeI ti. checkEqualType P typeI ti (LetrecExp bindings body))
                    types (map procReturnTE ?procs)"
  have "\<not> isOk (bind_result ?types ?check)"
  proof (cases "\<forall>p \<in> set ?procs. isOk (typeofExps P (procBody p) (?envOf p))")
    case False
    then have "\<exists>p \<in> set ?procs. \<not> isOk (typeofExps P (procBody p) (?envOf p))" by blast
    then have "\<not> isOk ?types" by (rule typeofLetrec_types_failure)
    then show ?thesis by (auto simp: not_isOk_iff)
  next
    case True
    define typeOf where "typeOf p = (case typeofExps P (procBody p) (?envOf p) of Inr te \<Rightarrow> te)" for p
    have ok: "\<forall>p \<in> set ?procs. typeofExps P (procBody p) (?envOf p) = makeOk (typeOf p)"
      using True by (auto simp: isOk_iff typeOf_def)
    then have types: "?types = makeOk (map typeOf ?procs)"
      by (rule typeofLetrec_types_ok)
    from bad obtain b where b: "b \<in> set bindings"
      and ne: "typeofExps P (procBody (bval b)) (?envOf (bval b)) \<noteq> makeOk (procReturnTE (bval b))"
      by blast
    from ok b have "typeofExps P (procBody (bval b)) (?envOf (bval b)) = makeOk (typeOf (bval b))"
      by simp
    with ne have "typeOf (bval b) \<noteq> procReturnTE (bval b)" by auto
    with b have "map typeOf ?procs \<noteq> map procReturnTE ?procs" by auto
    then have "\<not> isOk (?check (map typeOf ?procs))"
      by (intro zipWithResult_checkEqualType_differ) simp_all
    with types show ?thesis by simp
  qed
  then obtain message where "bind_result ?types ?check = makeFailure message"
    by (auto simp: not_isOk_iff)
  then show ?thesis
    by (simp only: typeofLetrec_unfold [OF procs] bind_result_Inl isOk_Inl not_False_eq_True)
qed

subsection \<open>Application\<close>

lemma typeofApp_rands_Cons:
  "typeofExp P rand tenv = makeOk randTE \<Longrightarrow>
   typeofApp_rands P app tenv (rand # rands) (paramTE # paramTEs) s =
     (if fst (unifyTypes paramTE randTE s)
      then typeofApp_rands P app tenv rands paramTEs (snd (unifyTypes paramTE randTE s))
      else mismatchFailure P app)"
  by (cases "unifyTypes paramTE randTE s") (simp add: mismatchFailure_def split: bool.splits)

lemma typeofApp_rands_typed:
  "length rands = length paramTEs \<Longrightarrow>
   map (\<lambda>rand. typeofExp P rand tenv) rands = map makeOk randTEs \<Longrightarrow>
   typeofApp_rands P app tenv rands paramTEs s =
     (if fst (unifyInOrder paramTEs randTEs s) then makeOk (snd (unifyInOrder paramTEs randTEs s))
      else mismatchFailure P app)"
proof (induction rands paramTEs arbitrary: randTEs s rule: list_induct2)
  case Nil
  then show ?case by simp
next
  case (Cons rand rands paramTE paramTEs)
  from Cons.prems obtain randTE randTEs' where r: "randTEs = randTE # randTEs'"
    and rand: "typeofExp P rand tenv = makeOk randTE"
    and rest: "map (\<lambda>rand. typeofExp P rand tenv) rands = map makeOk randTEs'"
    by (cases randTEs) auto
  show ?case
    using typeofApp_rands_Cons [OF rand, of app rands paramTE paramTEs s] Cons.IH [OF rest] r
    by simp
qed

lemma typeofApp_rands_rand_failure:
  "length (pre @ rand # post) = length paramTEs \<Longrightarrow>
   map (\<lambda>rand. typeofExp P rand tenv) pre = map makeOk preTEs \<Longrightarrow>
   fst (unifyInOrder (take (length pre) paramTEs) preTEs s) \<Longrightarrow>
   typeofExp P rand tenv = makeFailure message \<Longrightarrow>
   typeofApp_rands P app tenv (pre @ rand # post) paramTEs s = makeFailure message"
proof (induction pre arbitrary: paramTEs preTEs s)
  case Nil
  then obtain paramTE paramTEs' where "paramTEs = paramTE # paramTEs'"
    by (cases paramTEs) auto
  with Nil show ?case by simp
next
  case (Cons x pre)
  from Cons.prems(1) obtain paramTE paramTEs' where p: "paramTEs = paramTE # paramTEs'"
    and len: "length (pre @ rand # post) = length paramTEs'"
    by (cases paramTEs) auto
  from Cons.prems(2) obtain xTE preTEs' where t: "preTEs = xTE # preTEs'"
    and x: "typeofExp P x tenv = makeOk xTE"
    and rest: "map (\<lambda>rand. typeofExp P rand tenv) pre = map makeOk preTEs'"
    by (cases preTEs) auto
  from Cons.prems(3) p t have u: "fst (unifyTypes paramTE xTE s)"
    and us: "fst (unifyInOrder (take (length pre) paramTEs') preTEs' (snd (unifyTypes paramTE xTE s)))"
    by (auto split: if_splits)
  have "typeofApp_rands P app tenv (pre @ rand # post) paramTEs' (snd (unifyTypes paramTE xTE s))
          = makeFailure message"
    by (rule Cons.IH [OF len rest us Cons.prems(4)])
  then show ?case
    using typeofApp_rands_Cons [OF x, of app "pre @ rand # post" paramTE paramTEs' s] u p
    by simp
qed

lemma typeofApp_rands_unify_failure:
  "length (pre @ post) = length paramTEs \<Longrightarrow>
   map (\<lambda>rand. typeofExp P rand tenv) pre = map makeOk preTEs \<Longrightarrow>
   \<not> fst (unifyInOrder (take (length pre) paramTEs) preTEs s) \<Longrightarrow>
   typeofApp_rands P app tenv (pre @ post) paramTEs s = mismatchFailure P app"
proof (induction pre arbitrary: paramTEs preTEs s)
  case Nil
  then show ?case by simp
next
  case (Cons x pre)
  from Cons.prems(1) obtain paramTE paramTEs' where p: "paramTEs = paramTE # paramTEs'"
    and len: "length (pre @ post) = length paramTEs'"
    by (cases paramTEs) auto
  from Cons.prems(2) obtain xTE preTEs' where t: "preTEs = xTE # preTEs'"
    and x: "typeofExp P x tenv = makeOk xTE"
    and rest: "map (\<lambda>rand. typeofExp P rand tenv) pre = map makeOk preTEs'"
    by (cases preTEs) auto
  show ?case
  proof (cases "fst (unifyTypes paramTE xTE s)")
    case True
    with Cons.prems(3) p t
    have "\<not> fst (unifyInOrder (take (length pre) paramTEs') preTEs' (snd (unifyTypes paramTE xTE s)))"
      by simp
    from Cons.IH [OF len rest this] True show ?thesis
      using typeofApp_rands_Cons [OF x, of app "pre @ post" paramTE paramTEs' s] p by simp
  next
    case False
    then show ?thesis
      using typeofApp_rands_Cons [OF x, of app "pre @ post" paramTE paramTEs' s] p by simp
  qed
qed

lemma typeofApp_rator_failure:
  "typeofExp P rator tenv = makeFailure message \<Longrightarrow>
   typeofApp P rator rands tenv = makeFailure message"
  by (simp add: typeofApp.simps)

lemma typeofApp_non_procedure:
  "typeofExp P rator tenv = makeOk ratorTE \<Longrightarrow> \<not> isProcTExp ratorTE \<Longrightarrow>
   typeofApp P rator rands tenv =
     bind_result (unparseTExp P ratorTE) (\<lambda>rator'.
       bind_result (unparse P (AppExp rator rands)) (\<lambda>exp.
         makeFailure (''Application of non-procedure: '' @ rator' @ '' in '' @ exp)))"
  by (cases ratorTE) (simp_all add: typeofApp.simps)

lemma typeofApp_arity:
  "typeofExp P rator tenv = makeOk (ProcTExp paramTEs returnTE) \<Longrightarrow>
   length rands \<noteq> length paramTEs \<Longrightarrow>
   typeofApp P rator rands tenv =
     bind_result (unparse P (AppExp rator rands)) (\<lambda>exp.
       makeFailure (''Wrong parameter numbers passed to proc: '' @ exp))"
  by (simp add: typeofApp.simps)

lemma typeofApp_checks_rands:
  "typeofExp P rator tenv = makeOk (ProcTExp paramTEs returnTE) \<Longrightarrow>
   length rands = length paramTEs \<Longrightarrow>
   typeofApp P rator rands tenv =
     bind_result (typeofApp_rands P (AppExp rator rands) tenv rands paramTEs Map.empty)
       (\<lambda>substitution. makeOk (substituteTypeVars returnTE substitution))"
  by (simp add: typeofApp.simps)

subsection \<open>Further consequences of the rules\<close>

lemma typeofLet_body_failure:
  "\<forall>b \<in> set bindings. validBinding P tenv b \<Longrightarrow>
   typeofExps P body (letTEnv bindings tenv) = makeFailure message \<Longrightarrow>
   typeofLet P bindings body tenv = makeFailure message"
  by (simp add: typeofLet_valid)

lemma typeofLetrec_body_failure:
  assumes procs: "list_all isProcExp (map bval (rpre @ rb # rpost))"
    and pre: "\<forall>q \<in> set rpre. isOk (typeofExps P (procBody (bval q))
                (procTEnv (bval q) (letrecTEnv (rpre @ rb # rpost) tenv)))"
    and rb: "typeofExps P (procBody (bval rb)) (procTEnv (bval rb) (letrecTEnv (rpre @ rb # rpost) tenv))
               = makeFailure message"
  shows "typeofLetrec P (rpre @ rb # rpost) body tenv = makeFailure message"
proof -
  let ?envOf = "\<lambda>p. procTEnv p (letrecTEnv (rpre @ rb # rpost) tenv)"
  have "\<forall>p \<in> set (map bval rpre). isOk (typeofExps P (procBody p) (?envOf p))"
    using pre by simp
  from typeofLetrec_types_first_failure [of "map bval rpre" P ?envOf "bval rb" message "map bval rpost",
      OF this rb]
  have "typeofLetrec_types P (map procBody (map bval (rpre @ rb # rpost)))
           (map ?envOf (map bval (rpre @ rb # rpost))) = makeFailure message"
    by simp
  then show ?thesis
    by (simp only: typeofLetrec_unfold [OF procs] bind_result_Inl)
qed

lemma letrecTEnv_annotations_only:
  assumes "map (\<lambda>b. (var (bvar b), map texp (procArgs (bval b)), procReturnTE (bval b))) bindings
         = map (\<lambda>b. (var (bvar b), map texp (procArgs (bval b)), procReturnTE (bval b))) bindings'"
  shows "letrecTEnv bindings tenv = letrecTEnv bindings' tenv"
proof -
  let ?t = "\<lambda>b. (var (bvar b), map texp (procArgs (bval b)), procReturnTE (bval b))"
  have n: "\<And>bs. map (\<lambda>b. var (bvar b)) bs = map fst (map ?t bs)"
    by simp
  have a: "\<And>bs. map (\<lambda>b. ProcTExp (map texp (procArgs (bval b))) (procReturnTE (bval b))) bs
             = map (\<lambda>t. ProcTExp (fst (snd t)) (snd (snd t))) (map ?t bs)"
    by simp
  show ?thesis
    unfolding letrecTEnv_def n a assms ..
qed

lemma programEnv_snoc_define:
  "programEnv (forms @ [DefineExp vd val]) env = makeExtendTEnv [var vd] [texp vd] (programEnv forms env)"
  by (simp add: programEnv_append)

lemma programEnv_snoc_other:
  "\<not> isDefineExp e \<Longrightarrow> programEnv (forms @ [e]) env = programEnv forms env"
  by (cases e) (simp_all add: programEnv_append)

lemma substituteTypeVars_unbound:
  "typeVars te \<inter> dom s = {} \<Longrightarrow> substituteTypeVars te s = te"
proof (induction te)
  case (ProcTExp paramTEs returnTE)
  have "map (\<lambda>p. substituteTypeVars p s) paramTEs = paramTEs"
  proof (rule map_idI)
    fix p assume p: "p \<in> set paramTEs"
    with ProcTExp.prems have "typeVars p \<inter> dom s = {}" by auto
    with p show "substituteTypeVars p s = p" by (rule ProcTExp.IH(1))
  qed
  moreover from ProcTExp.prems have "typeVars returnTE \<inter> dom s = {}" by auto
  then have "substituteTypeVars returnTE s = returnTE" by (rule ProcTExp.IH(2))
  ultimately show ?case by simp
next
  case (TVar v)
  then have "s v = None" by auto
  then show ?case by simp
qed auto

lemma typeofApp_typed:
  assumes "typeofExp P rator tenv = makeOk (ProcTExp paramTEs returnTE)"
    and "length rands = length paramTEs"
    and "map (\<lambda>rand. typeofExp P rand tenv) rands = map makeOk randTEs"
    and "fst (unifyInOrder paramTEs randTEs Map.empty)"
  shows "typeofApp P rator rands tenv =
           makeOk (substituteTypeVars returnTE (snd (unifyInOrder paramTEs randTEs Map.empty)))"
  using typeofApp_checks_rands [OF assms(1,2)]
    typeofApp_rands_typed [OF assms(2,3), of "AppExp rator rands" Map.empty] assms(4)
  by simp

lemma typeofApp_mismatch:
  assumes "typeofExp P rator tenv = makeOk (ProcTExp paramTEs returnTE)"
    and "length (pre @ post) = length paramTEs"
    and "map (\<lambda>rand. typeofExp P rand tenv) pre = map makeOk preTEs"
    and "\<not> fst (unifyInOrder (take (length pre) paramTEs) preTEs Map.empty)"
  shows "typeofApp P rator (pre @ post) tenv =
           bind_result (unparse P (AppExp rator (pre @ post))) (\<lambda>exp.
             makeFailure (''Type mismatch in application: '' @ exp))"
proof -
  have "typeofApp_rands P (AppExp rator (pre @ post)) tenv (pre @ post) paramTEs Map.empty
          = mismatchFailure P (AppExp rator (pre @ post))"
    by (rule typeofApp_rands_unify_failure [OF assms(2,3,4)])
  then show ?thesis
    using typeofApp_checks_rands [OF assms(1,2)]
    by (cases "unparse P (AppExp rator (pre @ post))") (simp_all add: mismatchFailure_def)
qed

lemma typeofApp_rand_failure:
  assumes "typeofExp P rator tenv = makeOk (ProcTExp paramTEs returnTE)"
    and "length (pre @ rand # post) = length paramTEs"
    and "map (\<lambda>rand. typeofExp P rand tenv) pre = map makeOk preTEs"
    and "fst (unifyInOrder (take (length pre) paramTEs) preTEs Map.empty)"
    and "typeofExp P rand tenv = makeFailure message"
  shows "typeofApp P rator (pre @ rand # post) tenv = makeFailure message"
  using typeofApp_checks_rands [OF assms(1,2)]
    typeofApp_rands_rand_failure [OF assms(2,3,4,5), of "AppExp rator (pre @ rand # post)"]
  by simp

lemma L5typeof_failure:
  "parseExp P concreteExp = makeOk e \<Longrightarrow> typeofExp P e makeEmptyTEnv = makeFailure message \<Longrightarrow>
   L5typeof P concreteExp = makeFailure message"
  by (simp add: L5typeof_def)

lemma L5programTypeof_failure:
  "length programText \<ge> 5 \<Longrightarrow> take 4 programText = ''(L5 '' \<Longrightarrow> drop (length programText - 1) programText = '')'' \<Longrightarrow>
   parseProgram P programText = makeOk forms \<Longrightarrow> typeofProgram P forms = makeFailure message \<Longrightarrow>
   L5programTypeof P programText = makeFailure message"
  by (simp add: L5programTypeof_def)

lemmas sample_simps =
  samplePrinters_def rule_simps Let_def sampleParseTE_def numOpTExp_def numCompTExp_def boolOpTExp_def
  typeofNum_def typeofBool_def typeofStr_def validBinding_def letTEnv_def letrecTEnv_def
  procTEnv_def js_String_def

section \<open>The properties of the specification\<close>

subsection \<open>Application\<close>

text \<open>
  C1. An application \<^verbatim>\<open>(rator rand1 ... randn)\<close>. When the type of the rator is not an
  arrow, the application fails as an application of a non-procedure. When the number of
  rands differs from the number of parameter types of the arrow, it fails as an arity
  mismatch. Otherwise the rands are type-checked in order and each type is unified with
  the parameter type of its position, all positions sharing one substitution that starts
  empty for this application: the first rand that fails to type-check gives its failure
  to the application, the first position that does not unify fails it as a type mismatch,
  and when every position unifies the result is the declared result type of the arrow
  with each type variable that the substitution binds replaced by its binding (pairs and
  arrows are rewritten inside, other type variables and atomic types stay).
\<close>

theorem typeofApp_rule:
  "(typeofExp P rator tenv = makeOk ratorTE \<and> \<not> isProcTExp ratorTE \<longrightarrow>
      \<not> isOk (typeofExp P (AppExp rator rands) tenv)
      \<and> (unparseTExp P ratorTE = makeOk ratorText
           \<and> unparse P (AppExp rator rands) = makeOk appText \<longrightarrow>
         typeofExp P (AppExp rator rands) tenv =
           makeFailure (''Application of non-procedure: '' @ ratorText @ '' in '' @ appText)))
   \<and> (typeofExp P rator tenv = makeOk (ProcTExp paramTEs returnTE)
        \<and> length rands \<noteq> length paramTEs \<longrightarrow>
      \<not> isOk (typeofExp P (AppExp rator rands) tenv)
      \<and> (unparse P (AppExp rator rands) = makeOk appText \<longrightarrow>
         typeofExp P (AppExp rator rands) tenv =
           makeFailure (''Wrong parameter numbers passed to proc: '' @ appText)))
   \<and> (typeofExp P rator tenv = makeOk (ProcTExp paramTEs returnTE)
        \<and> length rands = length paramTEs
        \<and> map (\<lambda>rand. typeofExp P rand tenv) rands = map makeOk randTEs
        \<and> fst (unifyInOrder paramTEs randTEs Map.empty) \<longrightarrow>
      typeofExp P (AppExp rator rands) tenv =
        makeOk (substituteTypeVars returnTE (snd (unifyInOrder paramTEs randTEs Map.empty))))
   \<and> (typeofExp P rator tenv = makeOk (ProcTExp paramTEs returnTE)
        \<and> length (pre @ post) = length paramTEs
        \<and> map (\<lambda>rand. typeofExp P rand tenv) pre = map makeOk preTEs
        \<and> \<not> fst (unifyInOrder (take (length pre) paramTEs) preTEs Map.empty) \<longrightarrow>
      \<not> isOk (typeofExp P (AppExp rator (pre @ post)) tenv)
      \<and> (unparse P (AppExp rator (pre @ post)) = makeOk appText \<longrightarrow>
         typeofExp P (AppExp rator (pre @ post)) tenv =
           makeFailure (''Type mismatch in application: '' @ appText)))
   \<and> (typeofExp P rator tenv = makeOk (ProcTExp paramTEs returnTE)
        \<and> length (pre @ rand # post) = length paramTEs
        \<and> map (\<lambda>rand. typeofExp P rand tenv) pre = map makeOk preTEs
        \<and> fst (unifyInOrder (take (length pre) paramTEs) preTEs Map.empty)
        \<and> typeofExp P rand tenv = makeFailure message \<longrightarrow>
      typeofExp P (AppExp rator (pre @ rand # post)) tenv = makeFailure message)
   \<and> (s v = Some te \<longrightarrow> substituteTypeVars (TVar v) s = te)
   \<and> (s v = None \<longrightarrow> substituteTypeVars (TVar v) s = TVar v)
   \<and> substituteTypeVars (PairTExp te1 te2) s =
        PairTExp (substituteTypeVars te1 s) (substituteTypeVars te2 s)
   \<and> substituteTypeVars (ProcTExp tes te3) s =
        ProcTExp (map (\<lambda>p. substituteTypeVars p s) tes) (substituteTypeVars te3 s)
   \<and> (typeVars te4 \<inter> dom s = {} \<longrightarrow> substituteTypeVars te4 s = te4)"
proof -
  have c1: "typeofExp P rator tenv = makeOk ratorTE \<and> \<not> isProcTExp ratorTE \<longrightarrow>
      \<not> isOk (typeofExp P (AppExp rator rands) tenv)
      \<and> (unparseTExp P ratorTE = makeOk ratorText
           \<and> unparse P (AppExp rator rands) = makeOk appText \<longrightarrow>
         typeofExp P (AppExp rator rands) tenv =
           makeFailure (''Application of non-procedure: '' @ ratorText @ '' in '' @ appText))"
    using typeofApp_non_procedure [of P rator tenv ratorTE rands]
    by (auto simp: isOk_bind_result)
  have c2: "typeofExp P rator tenv = makeOk (ProcTExp paramTEs returnTE)
        \<and> length rands \<noteq> length paramTEs \<longrightarrow>
      \<not> isOk (typeofExp P (AppExp rator rands) tenv)
      \<and> (unparse P (AppExp rator rands) = makeOk appText \<longrightarrow>
         typeofExp P (AppExp rator rands) tenv =
           makeFailure (''Wrong parameter numbers passed to proc: '' @ appText))"
    using typeofApp_arity [of P rator tenv paramTEs returnTE rands]
    by (auto simp: isOk_bind_result)
  have c3: "typeofExp P rator tenv = makeOk (ProcTExp paramTEs returnTE)
        \<and> length rands = length paramTEs
        \<and> map (\<lambda>rand. typeofExp P rand tenv) rands = map makeOk randTEs
        \<and> fst (unifyInOrder paramTEs randTEs Map.empty) \<longrightarrow>
      typeofExp P (AppExp rator rands) tenv =
        makeOk (substituteTypeVars returnTE (snd (unifyInOrder paramTEs randTEs Map.empty)))"
    using typeofApp_typed [of P rator tenv paramTEs returnTE rands randTEs] by simp
  have c4: "typeofExp P rator tenv = makeOk (ProcTExp paramTEs returnTE)
        \<and> length (pre @ post) = length paramTEs
        \<and> map (\<lambda>rand. typeofExp P rand tenv) pre = map makeOk preTEs
        \<and> \<not> fst (unifyInOrder (take (length pre) paramTEs) preTEs Map.empty) \<longrightarrow>
      \<not> isOk (typeofExp P (AppExp rator (pre @ post)) tenv)
      \<and> (unparse P (AppExp rator (pre @ post)) = makeOk appText \<longrightarrow>
         typeofExp P (AppExp rator (pre @ post)) tenv =
           makeFailure (''Type mismatch in application: '' @ appText))"
    using typeofApp_mismatch [of P rator tenv paramTEs returnTE pre post preTEs]
    by (auto simp: isOk_bind_result)
  have c5: "typeofExp P rator tenv = makeOk (ProcTExp paramTEs returnTE)
        \<and> length (pre @ rand # post) = length paramTEs
        \<and> map (\<lambda>rand. typeofExp P rand tenv) pre = map makeOk preTEs
        \<and> fst (unifyInOrder (take (length pre) paramTEs) preTEs Map.empty)
        \<and> typeofExp P rand tenv = makeFailure message \<longrightarrow>
      typeofExp P (AppExp rator (pre @ rand # post)) tenv = makeFailure message"
    using typeofApp_rand_failure [of P rator tenv paramTEs returnTE pre rand post preTEs message]
    by simp
  have c6: "s v = Some te \<longrightarrow> substituteTypeVars (TVar v) s = te"
    by simp
  have c7: "s v = None \<longrightarrow> substituteTypeVars (TVar v) s = TVar v"
    by simp
  have c8: "substituteTypeVars (PairTExp te1 te2) s =
        PairTExp (substituteTypeVars te1 s) (substituteTypeVars te2 s)"
    by simp
  have c9: "substituteTypeVars (ProcTExp tes te3) s =
        ProcTExp (map (\<lambda>p. substituteTypeVars p s) tes) (substituteTypeVars te3 s)"
    by simp
  have c10: "typeVars te4 \<inter> dom s = {} \<longrightarrow> substituteTypeVars te4 s = te4"
    by (simp add: substituteTypeVars_unbound)
  show ?thesis
    by (intro conjI) (rule c1 c2 c3 c4 c5 c6 c7 c8 c9 c10)+
qed

theorem typeofApp_rule_witness:
  "typeofExp samplePrinters (AppExp (NumExp 1) [NumExp 2]) EmptyTEnv
     = makeFailure ''Application of non-procedure: <texp> in <exp>''
   \<and> typeofExp samplePrinters (AppExp (PrimOp ''+'') [NumExp 1]) EmptyTEnv
     = makeFailure ''Wrong parameter numbers passed to proc: <exp>''
   \<and> typeofExp samplePrinters (AppExp (PrimOp ''cons'') [NumExp 1, BoolExp True]) EmptyTEnv
     = makeOk (PairTExp NumTExp BoolTExp)
   \<and> typeofExp samplePrinters (AppExp (PrimOp ''+'') [NumExp 1, BoolExp True]) EmptyTEnv
     = makeFailure ''Type mismatch in application: <exp>''
   \<and> typeofExp samplePrinters (AppExp (PrimOp ''+'') [NumExp 1, VarRef ''y'']) EmptyTEnv
     = makeFailure ''var not found: y''
   \<and> typeofExp samplePrinters (AppExp (VarRef ''f'') [NumExp 1, NumExp 2])
        (ExtendTEnv [''f''] [ProcTExp [TVar ''T'', TVar ''T''] (TVar ''T'')] EmptyTEnv)
     = makeOk NumTExp
   \<and> typeofExp samplePrinters (AppExp (VarRef ''f'') [NumExp 1, BoolExp True])
        (ExtendTEnv [''f''] [ProcTExp [TVar ''T'', TVar ''T''] (TVar ''T'')] EmptyTEnv)
     = makeFailure ''Type mismatch in application: <exp>''
   \<and> substituteTypeVars (PairTExp (TVar ''T1'') (TVar ''T2'')) [''T1'' \<mapsto> NumTExp]
     = PairTExp NumTExp (TVar ''T2'')
   \<and> substituteTypeVars (ProcTExp [NumTExp] (TVar ''T2'')) [''T1'' \<mapsto> NumTExp]
     = ProcTExp [NumTExp] (TVar ''T2'')"
proof -
  let ?P = samplePrinters
  let ?fenv = "ExtendTEnv [''f''] [ProcTExp [TVar ''T'', TVar ''T''] (TVar ''T'')] EmptyTEnv"
  note a = typeofApp_rule [where P = ?P and tenv = EmptyTEnv and rator = "NumExp 1"
      and rands = "[NumExp 2]" and ratorTE = NumTExp and ratorText = "''<texp>''"
      and appText = "''<exp>''"]
  note b = typeofApp_rule [where P = ?P and tenv = EmptyTEnv and rator = "PrimOp ''+''"
      and rands = "[NumExp 1]" and paramTEs = "[NumTExp, NumTExp]" and returnTE = NumTExp
      and appText = "''<exp>''" and pre = "[NumExp 1]" and rand = "VarRef ''y''" and post = "[]"
      and preTEs = "[NumTExp]" and message = "''var not found: y''"]
  note c = typeofApp_rule [where P = ?P and tenv = EmptyTEnv and rator = "PrimOp ''cons''"
      and rands = "[NumExp 1, BoolExp True]" and paramTEs = "[TVar ''T1'', TVar ''T2'']"
      and returnTE = "PairTExp (TVar ''T1'') (TVar ''T2'')" and randTEs = "[NumTExp, BoolTExp]"]
  note d = typeofApp_rule [where P = ?P and tenv = EmptyTEnv and rator = "PrimOp ''+''"
      and paramTEs = "[NumTExp, NumTExp]" and returnTE = NumTExp
      and pre = "[NumExp 1, BoolExp True]" and post = "[]" and preTEs = "[NumTExp, BoolTExp]"
      and appText = "''<exp>''"]
  note e = typeofApp_rule [where P = ?P and tenv = ?fenv and rator = "VarRef ''f''"
      and rands = "[NumExp 1, NumExp 2]" and paramTEs = "[TVar ''T'', TVar ''T'']"
      and returnTE = "TVar ''T''" and randTEs = "[NumTExp, NumTExp]"
      and pre = "[NumExp 1, BoolExp True]" and post = "[]" and preTEs = "[NumTExp, BoolTExp]"
      and appText = "''<exp>''"]
  note f = typeofApp_rule [where s = "[''T1'' \<mapsto> NumTExp]" and v = "''T1''" and te = NumTExp
      and ?te1.0 = "TVar ''T1''" and ?te2.0 = "TVar ''T2''"
      and ?te4.0 = "ProcTExp [NumTExp] (TVar ''T2'')"]
  note g = typeofApp_rule [where s = "[''T1'' \<mapsto> NumTExp]" and v = "''T2''"]
  from a b c d e f g show ?thesis
    by (simp add: sample_simps)
qed

subsection \<open>Failures\<close>

text \<open>
  C3, as stated, has every rule pass the failure of a subexpression on unchanged. A
  \<^verbatim>\<open>define\<close> does not: when its value fails, with an unknown primitive or an unbound
  variable, \<^verbatim>\<open>typeofDefine\<close> returns a failure of its own, and so does the entry point.
  And a rule returns the failure of the first of its steps that fails: a conditional
  whose test is not boolean returns that mismatch, not the failure of its \<^verbatim>\<open>then\<close> part.
\<close>

theorem define_rewrites_failure_counterexample:
  "typeofExp samplePrinters (PrimOp ''list'') EmptyTEnv
     = makeFailure ''Primitive not yet implemented: list''
   \<and> typeofExp samplePrinters (DefineExp \<lparr>var = ''x'', texp = NumTExp\<rparr> (PrimOp ''list'')) EmptyTEnv
     = makeFailure ''VarDecl type different from val type, types:unknown and [object Object]''
   \<and> L5typeof samplePrinters ''(define (x : number) list)''
     = makeFailure ''VarDecl type different from val type, types:unknown and [object Object]''
   \<and> typeofExp samplePrinters (VarRef ''y'') EmptyTEnv = makeFailure ''var not found: y''
   \<and> typeofExp samplePrinters (DefineExp \<lparr>var = ''x'', texp = NumTExp\<rparr> (VarRef ''y'')) EmptyTEnv
     = makeFailure ''VarDecl type different from val type, types:unknown and [object Object]''
   \<and> typeofExp samplePrinters (IfExp (NumExp 1) (VarRef ''y'') (NumExp 2)) EmptyTEnv
     = makeFailure ''Incompatible types: <texp> and <texp> in <exp>''"
  by (simp add: rule_simps Let_def js_String_def L5typeof_def samplePrinters_def
        checkEqualType_def typeofNum_def)

text \<open>
  C3, amended. In every rule but \<^verbatim>\<open>define\<close>, a subexpression that fails when the steps
  of the rule before it have passed (the parts before it type-check, the test is
  boolean, the bindings before it are valid, the rands before it unify) ends the rule,
  and the rule returns that failure with its message unchanged: a sequence, the three
  parts of a conditional, the body of a procedure, the rator and the rands of an
  application, the values and the body of a \<^verbatim>\<open>let\<close>, the procedure bodies and the body of
  a \<^verbatim>\<open>letrec\<close>, and the forms of a program. A \<^verbatim>\<open>define\<close> whose value fails returns a
  failure whose message starts \<^verbatim>\<open>VarDecl type different from val type, types:unknown and\<close>
  in place of the value's message. The two entry points return the failure of the rule
  as it is.
\<close>

theorem failure_propagation:
  "((\<forall>x \<in> set pre. isOk (typeofExp P x tenv)) \<and> typeofExp P e tenv = makeFailure message \<longrightarrow>
      typeofExps P (pre @ e # post) tenv = makeFailure message)
   \<and> (typeofExp P test tenv = makeFailure message \<longrightarrow>
      typeofExp P (IfExp test thn alt) tenv = makeFailure message)
   \<and> (typeofExp P test tenv = makeOk BoolTExp \<and> typeofExp P thn tenv = makeFailure message \<longrightarrow>
      typeofExp P (IfExp test thn alt) tenv = makeFailure message)
   \<and> (typeofExp P test tenv = makeOk BoolTExp \<and> typeofExp P thn tenv = makeOk te
        \<and> typeofExp P alt tenv = makeFailure message \<longrightarrow>
      typeofExp P (IfExp test thn alt) tenv = makeFailure message)
   \<and> (typeofExps P body (makeExtendTEnv (map var args) (map texp args) tenv) = makeFailure message \<longrightarrow>
      typeofExp P (ProcExp args body returnTE) tenv = makeFailure message)
   \<and> (typeofExp P rator tenv = makeFailure message \<longrightarrow>
      typeofExp P (AppExp rator rands) tenv = makeFailure message)
   \<and> (typeofExp P rator tenv = makeOk (ProcTExp paramTEs resultTE)
        \<and> length (rpre @ rand # rpost) = length paramTEs
        \<and> map (\<lambda>rand. typeofExp P rand tenv) rpre = map makeOk preTEs
        \<and> fst (unifyInOrder (take (length rpre) paramTEs) preTEs Map.empty)
        \<and> typeofExp P rand tenv = makeFailure message \<longrightarrow>
      typeofExp P (AppExp rator (rpre @ rand # rpost)) tenv = makeFailure message)
   \<and> ((\<forall>b \<in> set bpre. validBinding P tenv b) \<and> typeofExp P (bval b) tenv = makeFailure message \<longrightarrow>
      typeofExp P (LetExp (bpre @ b # bpost) body) tenv = makeFailure message)
   \<and> ((\<forall>b \<in> set bindings. validBinding P tenv b)
        \<and> typeofExps P body (letTEnv bindings tenv) = makeFailure message \<longrightarrow>
      typeofExp P (LetExp bindings body) tenv = makeFailure message)
   \<and> (list_all isProcExp (map bval (lpre @ lb # lpost))
        \<and> (\<forall>q \<in> set lpre. isOk (typeofExps P (procBody (bval q))
                (procTEnv (bval q) (letrecTEnv (lpre @ lb # lpost) tenv))))
        \<and> typeofExps P (procBody (bval lb)) (procTEnv (bval lb) (letrecTEnv (lpre @ lb # lpost) tenv))
             = makeFailure message \<longrightarrow>
      typeofExp P (LetrecExp (lpre @ lb # lpost) body) tenv = makeFailure message)
   \<and> (list_all isProcExp (map bval bindings)
        \<and> (\<forall>b \<in> set bindings. typeofExps P (procBody (bval b))
                (procTEnv (bval b) (letrecTEnv bindings tenv)) = makeOk (procReturnTE (bval b)))
        \<and> typeofExps P body (letrecTEnv bindings tenv) = makeFailure message \<longrightarrow>
      typeofExp P (LetrecExp bindings body) tenv = makeFailure message)
   \<and> ((\<forall>i < length fpre. isOk (typeofExp P (fpre ! i) (programEnv (take i fpre) makeEmptyTEnv)))
        \<and> typeofExp P form (programEnv fpre makeEmptyTEnv) = makeFailure message \<longrightarrow>
      typeofExp P (Program (fpre @ form # fpost)) tenv = makeFailure message)
   \<and> (typeofExp P val tenv = makeFailure message \<longrightarrow>
      (\<exists>rest. typeofExp P (DefineExp vd val) tenv = makeFailure
         (''VarDecl type different from val type, types:unknown and '' @ rest)))
   \<and> (parseExp P concreteExp = makeOk parsed
        \<and> typeofExp P parsed makeEmptyTEnv = makeFailure message \<longrightarrow>
      L5typeof P concreteExp = makeFailure message)
   \<and> (length programText \<ge> 5 \<and> take 4 programText = ''(L5 '' \<and> drop (length programText - 1) programText = '')''
        \<and> parseProgram P programText = makeOk forms
        \<and> typeofExp P (Program forms) makeEmptyTEnv = makeFailure message \<longrightarrow>
      L5programTypeof P programText = makeFailure message)"
proof -
  have c1: "(\<forall>x \<in> set pre. isOk (typeofExp P x tenv)) \<and> typeofExp P e tenv = makeFailure message \<longrightarrow>
      typeofExps P (pre @ e # post) tenv = makeFailure message"
    using typeofExps_first_failure [of pre P tenv e message post] by blast
  have c2: "typeofExp P test tenv = makeFailure message \<longrightarrow>
      typeofExp P (IfExp test thn alt) tenv = makeFailure message"
    by (simp add: typeofIf_test_failure)
  have c3: "typeofExp P test tenv = makeOk BoolTExp \<and> typeofExp P thn tenv = makeFailure message \<longrightarrow>
      typeofExp P (IfExp test thn alt) tenv = makeFailure message"
    by (simp add: typeofIf_then_failure)
  have c4: "typeofExp P test tenv = makeOk BoolTExp \<and> typeofExp P thn tenv = makeOk te
        \<and> typeofExp P alt tenv = makeFailure message \<longrightarrow>
      typeofExp P (IfExp test thn alt) tenv = makeFailure message"
    by (simp add: typeofIf_alt_failure)
  have c5: "typeofExps P body (makeExtendTEnv (map var args) (map texp args) tenv) = makeFailure message \<longrightarrow>
      typeofExp P (ProcExp args body returnTE) tenv = makeFailure message"
    by (simp add: typeofProc_body_failure)
  have c6: "typeofExp P rator tenv = makeFailure message \<longrightarrow>
      typeofExp P (AppExp rator rands) tenv = makeFailure message"
    by (simp add: typeofApp_rator_failure)
  have c7: "typeofExp P rator tenv = makeOk (ProcTExp paramTEs resultTE)
        \<and> length (rpre @ rand # rpost) = length paramTEs
        \<and> map (\<lambda>rand. typeofExp P rand tenv) rpre = map makeOk preTEs
        \<and> fst (unifyInOrder (take (length rpre) paramTEs) preTEs Map.empty)
        \<and> typeofExp P rand tenv = makeFailure message \<longrightarrow>
      typeofExp P (AppExp rator (rpre @ rand # rpost)) tenv = makeFailure message"
    using typeofApp_rand_failure [of P rator tenv paramTEs resultTE rpre rand rpost preTEs message]
    by simp
  have c8: "(\<forall>b \<in> set bpre. validBinding P tenv b) \<and> typeofExp P (bval b) tenv = makeFailure message \<longrightarrow>
      typeofExp P (LetExp (bpre @ b # bpost) body) tenv = makeFailure message"
    using typeofLet_value_failure [of bpre P tenv b message bpost body] by simp
  have c9: "(\<forall>b \<in> set bindings. validBinding P tenv b)
        \<and> typeofExps P body (letTEnv bindings tenv) = makeFailure message \<longrightarrow>
      typeofExp P (LetExp bindings body) tenv = makeFailure message"
    using typeofLet_body_failure [of bindings P tenv body message] by simp
  have c10: "list_all isProcExp (map bval (lpre @ lb # lpost))
        \<and> (\<forall>q \<in> set lpre. isOk (typeofExps P (procBody (bval q))
                (procTEnv (bval q) (letrecTEnv (lpre @ lb # lpost) tenv))))
        \<and> typeofExps P (procBody (bval lb)) (procTEnv (bval lb) (letrecTEnv (lpre @ lb # lpost) tenv))
             = makeFailure message \<longrightarrow>
      typeofExp P (LetrecExp (lpre @ lb # lpost) body) tenv = makeFailure message"
    using typeofLetrec_body_failure [of lpre lb lpost P tenv message body]
    by (simp only: typeofExp.simps) blast
  have c11: "list_all isProcExp (map bval bindings)
        \<and> (\<forall>b \<in> set bindings. typeofExps P (procBody (bval b))
                (procTEnv (bval b) (letrecTEnv bindings tenv)) = makeOk (procReturnTE (bval b)))
        \<and> typeofExps P body (letrecTEnv bindings tenv) = makeFailure message \<longrightarrow>
      typeofExp P (LetrecExp bindings body) tenv = makeFailure message"
    using typeofLetrec_bodies_agree [of bindings P tenv body]
    by (simp only: typeofExp.simps) metis
  have c12: "(\<forall>i < length fpre. isOk (typeofExp P (fpre ! i) (programEnv (take i fpre) makeEmptyTEnv)))
        \<and> typeofExp P form (programEnv fpre makeEmptyTEnv) = makeFailure message \<longrightarrow>
      typeofExp P (Program (fpre @ form # fpost)) tenv = makeFailure message"
    using recur_first_failure [of fpre P makeEmptyTEnv form message fpost]
    by (simp add: typeofProgram.simps)
  have c13: "typeofExp P val tenv = makeFailure message \<longrightarrow>
      (\<exists>rest. typeofExp P (DefineExp vd val) tenv = makeFailure
         (''VarDecl type different from val type, types:unknown and '' @ rest))"
    using typeofDefine_val_failure [of P val tenv message vd] by simp
  have c14: "parseExp P concreteExp = makeOk parsed
        \<and> typeofExp P parsed makeEmptyTEnv = makeFailure message \<longrightarrow>
      L5typeof P concreteExp = makeFailure message"
    by (simp add: L5typeof_failure)
  have c15: "length programText \<ge> 5 \<and> take 4 programText = ''(L5 '' \<and> drop (length programText - 1) programText = '')''
        \<and> parseProgram P programText = makeOk forms
        \<and> typeofExp P (Program forms) makeEmptyTEnv = makeFailure message \<longrightarrow>
      L5programTypeof P programText = makeFailure message"
    using L5programTypeof_failure [of programText P forms message] by simp
  show ?thesis
    by (intro conjI) (rule c1 c2 c3 c4 c5 c6 c7 c8 c9 c10 c11 c12 c13 c14 c15)+
qed

theorem failure_propagation_witness:
  "typeofExps samplePrinters [NumExp 1, VarRef ''y'', NumExp 2] EmptyTEnv
     = makeFailure ''var not found: y''
   \<and> typeofExp samplePrinters (IfExp (VarRef ''y'') (NumExp 1) (NumExp 2)) EmptyTEnv
     = makeFailure ''var not found: y''
   \<and> typeofExp samplePrinters (IfExp (BoolExp True) (VarRef ''y'') (NumExp 2)) EmptyTEnv
     = makeFailure ''var not found: y''
   \<and> typeofExp samplePrinters (IfExp (BoolExp True) (NumExp 1) (VarRef ''y'')) EmptyTEnv
     = makeFailure ''var not found: y''
   \<and> typeofExp samplePrinters (ProcExp [] [VarRef ''y''] NumTExp) EmptyTEnv
     = makeFailure ''var not found: y''
   \<and> typeofExp samplePrinters (AppExp (VarRef ''y'') [NumExp 1]) EmptyTEnv
     = makeFailure ''var not found: y''
   \<and> typeofExp samplePrinters (AppExp (PrimOp ''+'') [NumExp 1, VarRef ''y'']) EmptyTEnv
     = makeFailure ''var not found: y''
   \<and> typeofExp samplePrinters
        (LetExp [Binding \<lparr>var = ''x'', texp = NumTExp\<rparr> (VarRef ''y'')] [NumExp 1]) EmptyTEnv
     = makeFailure ''var not found: y''
   \<and> typeofExp samplePrinters
        (LetExp [Binding \<lparr>var = ''x'', texp = NumTExp\<rparr> (NumExp 1)] [VarRef ''y'']) EmptyTEnv
     = makeFailure ''var not found: y''
   \<and> typeofExp samplePrinters
        (LetrecExp [Binding \<lparr>var = ''f'', texp = ProcTExp [] NumTExp\<rparr>
                      (ProcExp [] [VarRef ''y''] NumTExp)] [NumExp 1]) EmptyTEnv
     = makeFailure ''var not found: y''
   \<and> typeofExp samplePrinters
        (LetrecExp [Binding \<lparr>var = ''f'', texp = ProcTExp [] NumTExp\<rparr>
                      (ProcExp [] [NumExp 1] NumTExp)] [VarRef ''y'']) EmptyTEnv
     = makeFailure ''var not found: y''
   \<and> typeofExp samplePrinters (Program [NumExp 1, VarRef ''y'', NumExp 2]) EmptyTEnv
     = makeFailure ''var not found: y''
   \<and> (\<exists>rest. typeofExp samplePrinters
          (DefineExp \<lparr>var = ''x'', texp = NumTExp\<rparr> (VarRef ''y'')) EmptyTEnv
        = makeFailure (''VarDecl type different from val type, types:unknown and '' @ rest))
   \<and> L5typeof samplePrinters ''(define (x : number) list)''
     = makeFailure ''VarDecl type different from val type, types:unknown and [object Object]''
   \<and> L5programTypeof samplePrinters ''(L5 y)'' = makeFailure ''var not found: y''"
proof -
  let ?P = samplePrinters
  let ?m = "''var not found: y''"
  let ?x = "\<lparr>var = ''x'', texp = NumTExp\<rparr>"
  let ?f = "\<lparr>var = ''f'', texp = ProcTExp [] NumTExp\<rparr>"
  note w1 = failure_propagation [where P = ?P and tenv = EmptyTEnv and message = ?m
      and pre = "[NumExp 1]" and e = "VarRef ''y''" and post = "[NumExp 2]"
      and test = "VarRef ''y''" and thn = "NumExp 1" and alt = "NumExp 2"
      and args = "[]" and body = "[VarRef ''y'']" and returnTE = NumTExp
      and rator = "VarRef ''y''" and rands = "[NumExp 1]"
      and bpre = "[]" and b = "Binding ?x (VarRef ''y'')" and bpost = "[]"
      and bindings = "[Binding ?x (NumExp 1)]"
      and fpre = "[NumExp 1]" and form = "VarRef ''y''" and fpost = "[NumExp 2]"
      and val = "VarRef ''y''" and vd = ?x
      and programText = "''(L5 y)''" and forms = "[VarRef ''y'']"]
  note w2 = failure_propagation [where P = ?P and tenv = EmptyTEnv and message = ?m
      and test = "BoolExp True" and thn = "VarRef ''y''" and alt = "NumExp 2"
      and rator = "PrimOp ''+''" and paramTEs = "[NumTExp, NumTExp]" and resultTE = NumTExp
      and rpre = "[NumExp 1]" and rand = "VarRef ''y''" and rpost = "[]" and preTEs = "[NumTExp]"
      and lpre = "[]" and lb = "Binding ?f (ProcExp [] [VarRef ''y''] NumTExp)" and lpost = "[]"
      and body = "[NumExp 1]"]
  note w3 = failure_propagation [where P = ?P and tenv = EmptyTEnv and message = ?m
      and test = "BoolExp True" and thn = "NumExp 1" and alt = "VarRef ''y''" and te = NumTExp
      and bindings = "[Binding ?f (ProcExp [] [NumExp 1] NumTExp)]" and body = "[VarRef ''y'']"]
  note w4 = failure_propagation [where P = ?P and tenv = EmptyTEnv
      and message = "''VarDecl type different from val type, types:unknown and [object Object]''"
      and concreteExp = "''(define (x : number) list)''"
      and parsed = "DefineExp ?x (PrimOp ''list'')"]
  show ?thesis
    using w1 w2 w3 w4 by (simp add: sample_simps L5typeof_def L5programTypeof_def)
qed

subsection \<open>Definitions\<close>

text \<open>
  C4. A \<^verbatim>\<open>define\<close> whose value has the declared type has type Void. When the value has
  another type the failure's message is built by appending the \<^verbatim>\<open>Result\<close> objects that
  \<^verbatim>\<open>unparseTExp\<close> returns to a string: it is the same text for every pair of types and
  holds the printed form of neither.
\<close>

theorem typeofDefine_message:
  "(typeofExp P val tenv = makeOk (texp vd) \<longrightarrow>
      typeofExp P (DefineExp vd val) tenv = makeOk VoidTExp)
   \<and> (typeofExp P val tenv = makeOk valType \<and> valType \<noteq> texp vd \<longrightarrow>
      typeofExp P (DefineExp vd val) tenv = makeFailure
        ''VarDecl type different from val type, types:[object Object] and [object Object]'')"
  using typeofDefine_equal [of P val tenv vd] typeofDefine_mismatch [of P val tenv valType vd]
  by simp

theorem typeofDefine_message_witness:
  "typeofExp samplePrinters (DefineExp \<lparr>var = ''x'', texp = NumTExp\<rparr> (NumExp 1)) EmptyTEnv
     = makeOk VoidTExp
   \<and> typeofExp samplePrinters (DefineExp \<lparr>var = ''x'', texp = NumTExp\<rparr> (BoolExp True)) EmptyTEnv
     = makeFailure ''VarDecl type different from val type, types:[object Object] and [object Object]''"
proof -
  note a = typeofDefine_message [where P = samplePrinters and val = "NumExp 1" and tenv = EmptyTEnv
      and vd = "\<lparr>var = ''x'', texp = NumTExp\<rparr>"]
  note b = typeofDefine_message [where P = samplePrinters and val = "BoolExp True"
      and tenv = EmptyTEnv and vd = "\<lparr>var = ''x'', texp = NumTExp\<rparr>" and valType = BoolTExp]
  from a b show ?thesis by (simp add: typeofNum_def typeofBool_def)
qed

subsection \<open>Unification\<close>

text \<open>
  C5. \<^verbatim>\<open>unifyTypes(expected, actual, substitution)\<close>: when \<open>expected\<close> is a type variable
  it succeeds iff the substitution does not bind the name yet (and then binds it to
  \<open>actual\<close>, leaving the other bindings) or the existing binding equals \<open>actual\<close> (and
  then the substitution stays as it is); when both types are atomic it succeeds iff they
  are equal; when both are pairs it unifies the first components and then, in the
  substitution that this left, the second components: it succeeds iff both succeed, the
  substitution it leaves is the one the second unification leaves, and when the first
  components do not unify the second are not tried and the bindings made so far stay;
  in every other case, arrow against arrow included, it does not recurse, succeeds iff
  the two types are structurally equal and leaves the substitution as it is.
\<close>

theorem unifyTypes_cases:
  "(fst (unifyTypes (TVar v) actual s) \<longleftrightarrow> (s v = None \<or> s v = Some actual))
   \<and> (s v = None \<longrightarrow> snd (unifyTypes (TVar v) actual s) = s(v \<mapsto> actual))
   \<and> (s v \<noteq> None \<longrightarrow> snd (unifyTypes (TVar v) actual s) = s)
   \<and> (isAtomicTExp expected \<and> isAtomicTExp actual \<longrightarrow>
        unifyTypes expected actual s = (expected = actual, s))
   \<and> (fst (unifyTypes (PairTExp e1 e2) (PairTExp a1 a2) s) \<longleftrightarrow>
        fst (unifyTypes e1 a1 s) \<and> fst (unifyTypes e2 a2 (snd (unifyTypes e1 a1 s))))
   \<and> unifyTypes (PairTExp e1 e2) (PairTExp a1 a2) s =
        (if fst (unifyTypes e1 a1 s) then unifyTypes e2 a2 (snd (unifyTypes e1 a1 s))
         else (False, snd (unifyTypes e1 a1 s)))
   \<and> (fst (unifyTypes e1 a1 s) \<longrightarrow>
        snd (unifyTypes (PairTExp e1 e2) (PairTExp a1 a2) s)
          = snd (unifyTypes e2 a2 (snd (unifyTypes e1 a1 s))))
   \<and> (\<not> fst (unifyTypes e1 a1 s) \<longrightarrow>
        snd (unifyTypes (PairTExp e1 e2) (PairTExp a1 a2) s) = snd (unifyTypes e1 a1 s))
   \<and> snd (unifyTypes (PairTExp (TVar v1) (TVar v2)) (PairTExp a1 a2) Map.empty)
        = (if v1 = v2 then [v1 \<mapsto> a1] else [v1 \<mapsto> a1, v2 \<mapsto> a2])
   \<and> (\<not> isTVar expected \<and> \<not> (isAtomicTExp expected \<and> isAtomicTExp actual)
        \<and> \<not> (isPairTExp expected \<and> isPairTExp actual) \<longrightarrow>
        unifyTypes expected actual s = (expected = actual, s))
   \<and> unifyTypes (ProcTExp ps r) (ProcTExp ps' r') s = (ProcTExp ps r = ProcTExp ps' r', s)"
proof -
  have tv: "fst (unifyTypes (TVar v) actual s) \<longleftrightarrow> (s v = None \<or> s v = Some actual)"
    by (cases "s v") auto
  have tv_new: "s v = None \<longrightarrow> snd (unifyTypes (TVar v) actual s) = s(v \<mapsto> actual)"
    by simp
  have tv_old: "s v \<noteq> None \<longrightarrow> snd (unifyTypes (TVar v) actual s) = s"
    by auto
  have atomic: "isAtomicTExp expected \<and> isAtomicTExp actual \<longrightarrow>
        unifyTypes expected actual s = (expected = actual, s)"
    by (cases expected) simp_all
  have pair_eq: "unifyTypes (PairTExp e1 e2) (PairTExp a1 a2) s =
        (if fst (unifyTypes e1 a1 s) then unifyTypes e2 a2 (snd (unifyTypes e1 a1 s))
         else (False, snd (unifyTypes e1 a1 s)))"
    by (cases "unifyTypes e1 a1 s") (auto split: bool.splits)
  have pair: "fst (unifyTypes (PairTExp e1 e2) (PairTExp a1 a2) s) \<longleftrightarrow>
        fst (unifyTypes e1 a1 s) \<and> fst (unifyTypes e2 a2 (snd (unifyTypes e1 a1 s)))"
    by (simp only: pair_eq split: if_split) simp
  have pair_ok: "fst (unifyTypes e1 a1 s) \<longrightarrow>
        snd (unifyTypes (PairTExp e1 e2) (PairTExp a1 a2) s)
          = snd (unifyTypes e2 a2 (snd (unifyTypes e1 a1 s)))"
    by (simp only: pair_eq split: if_split) simp
  have pair_fail: "\<not> fst (unifyTypes e1 a1 s) \<longrightarrow>
        snd (unifyTypes (PairTExp e1 e2) (PairTExp a1 a2) s) = snd (unifyTypes e1 a1 s)"
    by (simp only: pair_eq split: if_split) simp
  have pair_vars: "snd (unifyTypes (PairTExp (TVar v1) (TVar v2)) (PairTExp a1 a2) Map.empty)
        = (if v1 = v2 then [v1 \<mapsto> a1] else [v1 \<mapsto> a1, v2 \<mapsto> a2])"
    by simp
  have other: "\<not> isTVar expected \<and> \<not> (isAtomicTExp expected \<and> isAtomicTExp actual)
        \<and> \<not> (isPairTExp expected \<and> isPairTExp actual) \<longrightarrow>
        unifyTypes expected actual s = (expected = actual, s)"
    by (cases expected; cases actual) simp_all
  have arrow: "unifyTypes (ProcTExp ps r) (ProcTExp ps' r') s = (ProcTExp ps r = ProcTExp ps' r', s)"
    by simp
  show ?thesis
    by (intro conjI)
      (rule tv tv_new tv_old atomic pair pair_eq pair_ok pair_fail pair_vars other arrow)+
qed

theorem unifyTypes_cases_witness:
  "fst (unifyTypes (TVar ''T'') NumTExp Map.empty)
   \<and> snd (unifyTypes (TVar ''T'') NumTExp Map.empty) = [''T'' \<mapsto> NumTExp]
   \<and> \<not> fst (unifyTypes (TVar ''T'') BoolTExp [''T'' \<mapsto> NumTExp])
   \<and> snd (unifyTypes (TVar ''T'') BoolTExp [''T'' \<mapsto> NumTExp]) = [''T'' \<mapsto> NumTExp]
   \<and> unifyTypes NumTExp BoolTExp Map.empty = (False, Map.empty)
   \<and> unifyTypes (PairTExp (TVar ''T1'') (TVar ''T2'')) (PairTExp NumTExp BoolTExp) Map.empty
        = (True, [''T1'' \<mapsto> NumTExp, ''T2'' \<mapsto> BoolTExp])
   \<and> unifyTypes (PairTExp (TVar ''T'') (TVar ''T'')) (PairTExp NumTExp BoolTExp) Map.empty
        = (False, [''T'' \<mapsto> NumTExp])
   \<and> unifyTypes (PairTExp NumTExp (TVar ''T'')) (PairTExp BoolTExp NumTExp) Map.empty
        = (False, Map.empty)
   \<and> unifyTypes (ProcTExp [TVar ''T''] NumTExp) NumTExp Map.empty = (False, Map.empty)
   \<and> unifyTypes (ProcTExp [TVar ''T''] NumTExp) (ProcTExp [NumTExp] NumTExp) Map.empty
        = (False, Map.empty)"
proof -
  note a = unifyTypes_cases [where v = "''T''" and actual = NumTExp and s = Map.empty
      and expected = NumTExp and ?e1.0 = "TVar ''T1''" and ?e2.0 = "TVar ''T2''"
      and ?a1.0 = NumTExp and ?a2.0 = BoolTExp and ps = "[TVar ''T'']" and r = NumTExp
      and ps' = "[NumTExp]" and r' = NumTExp and ?v1.0 = "''T1''" and ?v2.0 = "''T2''"]
  note b = unifyTypes_cases [where v = "''T''" and actual = BoolTExp
      and s = "[''T'' \<mapsto> NumTExp]" and expected = NumTExp]
  note c = unifyTypes_cases [where actual = NumTExp and s = Map.empty
      and expected = "ProcTExp [TVar ''T''] NumTExp"]
  note d = unifyTypes_cases [where actual = BoolTExp and s = Map.empty and expected = NumTExp]
  note e = unifyTypes_cases [where s = Map.empty and ?e1.0 = "TVar ''T''" and ?e2.0 = "TVar ''T''"
      and ?a1.0 = NumTExp and ?a2.0 = BoolTExp]
  note f = unifyTypes_cases [where s = Map.empty and ?e1.0 = NumTExp and ?e2.0 = "TVar ''T''"
      and ?a1.0 = BoolTExp and ?a2.0 = NumTExp]
  from a b c d e f show ?thesis by simp
qed

subsection \<open>Programs\<close>

text \<open>
  C6. The forms of a program are processed from left to right. Each form is type-checked
  in the running environment, which holds one frame for every define before it, with the
  define's declared type; the first form that fails fails the program. The type of a
  non-final form is discarded. The program has the type of its final form, and Void
  when it has no form. A reference to a name has the type that the latest define before
  it declared, and it fails as unbound when no define before it gave the name, whatever
  the forms after it define.
\<close>

theorem typeofProgram_rule:
  "typeofExp P (Program []) tenv = makeOk VoidTExp
   \<and> typeofExp P (Program forms) tenv = typeofProgram P forms
   \<and> ((\<forall>i < length pre. isOk (typeofExp P (pre ! i) (programEnv (take i pre) makeEmptyTEnv))) \<longrightarrow>
        typeofProgram P (pre @ [final]) = typeofExp P final (programEnv pre makeEmptyTEnv))
   \<and> ((\<forall>i < length pre. isOk (typeofExp P (pre ! i) (programEnv (take i pre) makeEmptyTEnv)))
        \<and> typeofExp P form (programEnv pre makeEmptyTEnv) = makeFailure message \<longrightarrow>
        typeofProgram P (pre @ form # post) = makeFailure message)
   \<and> programEnv (forms @ [DefineExp vd val]) env
        = makeExtendTEnv [var vd] [texp vd] (programEnv forms env)
   \<and> (\<not> isDefineExp e \<longrightarrow> programEnv (forms @ [e]) env = programEnv forms env)
   \<and> typeofExp P (VarRef x) (programEnv forms makeEmptyTEnv) =
        (case definedType forms x of
           Some te \<Rightarrow> makeOk te
         | None \<Rightarrow> makeFailure (unboundMessage P x))
   \<and> ((\<forall>i < length pre. isOk (typeofExp P (pre ! i) (programEnv (take i pre) makeEmptyTEnv)))
        \<and> definedType pre x = Some te \<longrightarrow>
        typeofProgram P (pre @ [VarRef x]) = makeOk te)
   \<and> ((\<forall>i < length pre. isOk (typeofExp P (pre ! i) (programEnv (take i pre) makeEmptyTEnv)))
        \<and> definedType pre x = None \<longrightarrow>
        typeofProgram P (pre @ VarRef x # post) = makeFailure (unboundMessage P x))"
proof -
  have c1: "typeofExp P (Program []) tenv = makeOk VoidTExp"
    by (simp add: typeofProgram.simps)
  have c2: "typeofExp P (Program forms) tenv = typeofProgram P forms"
    by simp
  have last: "typeofProgram P (pre @ [final]) = typeofExp P final (programEnv pre makeEmptyTEnv)"
    if "\<forall>i < length pre. isOk (typeofExp P (pre ! i) (programEnv (take i pre) makeEmptyTEnv))"
    for final
    using recur_last [OF that, of final] by (simp add: typeofProgram.simps)
  have first: "typeofProgram P (pre @ form # post) = makeFailure message"
    if "\<forall>i < length pre. isOk (typeofExp P (pre ! i) (programEnv (take i pre) makeEmptyTEnv))"
      and "typeofExp P form (programEnv pre makeEmptyTEnv) = makeFailure message"
    for form message
    using recur_first_failure [OF that, of post] by (simp add: typeofProgram.simps)
  have c3: "(\<forall>i < length pre. isOk (typeofExp P (pre ! i) (programEnv (take i pre) makeEmptyTEnv))) \<longrightarrow>
        typeofProgram P (pre @ [final]) = typeofExp P final (programEnv pre makeEmptyTEnv)"
    using last by blast
  have c4: "(\<forall>i < length pre. isOk (typeofExp P (pre ! i) (programEnv (take i pre) makeEmptyTEnv)))
        \<and> typeofExp P form (programEnv pre makeEmptyTEnv) = makeFailure message \<longrightarrow>
        typeofProgram P (pre @ form # post) = makeFailure message"
    using first by blast
  have c5: "programEnv (forms @ [DefineExp vd val]) env
        = makeExtendTEnv [var vd] [texp vd] (programEnv forms env)"
    by (rule programEnv_snoc_define)
  have c6: "\<not> isDefineExp e \<longrightarrow> programEnv (forms @ [e]) env = programEnv forms env"
    by (simp add: programEnv_snoc_other)
  have ref: "typeofExp P (VarRef x) (programEnv forms makeEmptyTEnv) =
        (case definedType forms x of
           Some te \<Rightarrow> makeOk te
         | None \<Rightarrow> makeFailure (unboundMessage P x))" for forms
    by (simp add: applyTEnv_programEnv split: option.splits)
  have c8: "(\<forall>i < length pre. isOk (typeofExp P (pre ! i) (programEnv (take i pre) makeEmptyTEnv)))
        \<and> definedType pre x = Some te \<longrightarrow>
        typeofProgram P (pre @ [VarRef x]) = makeOk te"
    using last [of "VarRef x"] ref [of pre] by simp
  have c9: "(\<forall>i < length pre. isOk (typeofExp P (pre ! i) (programEnv (take i pre) makeEmptyTEnv)))
        \<and> definedType pre x = None \<longrightarrow>
        typeofProgram P (pre @ VarRef x # post) = makeFailure (unboundMessage P x)"
    using first [of "VarRef x" "unboundMessage P x"] ref [of pre] by simp
  show ?thesis
    by (intro conjI) (rule c1 c2 c3 c4 c5 c6 ref c8 c9)+
qed

theorem typeofProgram_rule_witness:
  "typeofProgram samplePrinters
     [DefineExp \<lparr>var = ''x'', texp = NumTExp\<rparr> (NumExp 1), BoolExp True, VarRef ''x'']
     = makeOk NumTExp
   \<and> typeofProgram samplePrinters
     [VarRef ''x'', DefineExp \<lparr>var = ''x'', texp = NumTExp\<rparr> (NumExp 1)]
     = makeFailure ''var not found: x''
   \<and> typeofProgram samplePrinters
     [DefineExp \<lparr>var = ''x'', texp = NumTExp\<rparr> (NumExp 1), VarRef ''y'', BoolExp True]
     = makeFailure ''var not found: y''
   \<and> programEnv [BoolExp True] EmptyTEnv = EmptyTEnv"
proof -
  let ?d = "DefineExp \<lparr>var = ''x'', texp = NumTExp\<rparr> (NumExp 1)"
  note a = typeofProgram_rule [where P = samplePrinters and pre = "[?d, BoolExp True]"
      and x = "''x''" and te = NumTExp]
  note b = typeofProgram_rule [where P = samplePrinters and pre = "[]" and x = "''x''"
      and post = "[?d]"]
  note c = typeofProgram_rule [where P = samplePrinters and pre = "[?d]" and form = "VarRef ''y''"
      and post = "[BoolExp True]" and message = "''var not found: y''"
      and forms = "[]" and e = "BoolExp True" and env = EmptyTEnv]
  have less: "\<And>Q. (\<forall>i < Suc (Suc 0). Q i) \<longleftrightarrow> Q 0 \<and> Q (Suc 0)"
    by (auto simp: less_Suc_eq)
  from a b c show ?thesis
    by (simp add: sample_simps less)
qed

subsection \<open>Let\<close>

text \<open>
  C7, as stated, has a binding value that refers to the name of a sibling binding fail as
  unbound. The values are checked in the environment around the \<^verbatim>\<open>let\<close>: when that
  environment binds the name, the reference has the type it has there.
\<close>

theorem let_sibling_name_counterexample:
  "typeofExp samplePrinters
     (LetExp [Binding \<lparr>var = ''x'', texp = NumTExp\<rparr> (NumExp 1)]
        [LetExp [Binding \<lparr>var = ''x'', texp = BoolTExp\<rparr> (BoolExp True),
                 Binding \<lparr>var = ''y'', texp = NumTExp\<rparr> (VarRef ''x'')]
           [VarRef ''y'']])
     EmptyTEnv = makeOk NumTExp"
  by (simp add: sample_simps)

text \<open>
  C7, amended. The value of every binding of a \<^verbatim>\<open>let\<close> is type-checked in the
  environment around the \<^verbatim>\<open>let\<close>, not in the extended one, and its type must equal the
  declared type: the first value that fails gives its failure to the \<^verbatim>\<open>let\<close>, and the
  first value of another type fails it. A value that refers to a name is looked up in the
  environment around the \<^verbatim>\<open>let\<close>, also when a sibling binds that name: it fails as
  unbound when that environment does not bind the name, and it type-checks, to the type
  it has there, when that environment binds it. When all bindings are valid the
  body sequence is type-checked in the environment extended by one frame that holds all
  the bound names with their declared types, and its type is the type of the \<^verbatim>\<open>let\<close>.
\<close>

theorem typeofLet_rule:
  "((\<forall>b \<in> set bindings. validBinding P tenv b) \<longrightarrow>
      typeofExp P (LetExp bindings body) tenv = typeofExps P body (letTEnv bindings tenv))
   \<and> ((\<forall>b \<in> set pre. validBinding P tenv b) \<and> typeofExp P (bval b) tenv = makeFailure message \<longrightarrow>
      typeofExp P (LetExp (pre @ b # post) body) tenv = makeFailure message)
   \<and> ((\<forall>b \<in> set pre. validBinding P tenv b) \<and> typeofExp P (bval b) tenv = makeOk te
        \<and> te \<noteq> texp (bvar b) \<longrightarrow>
      \<not> isOk (typeofExp P (LetExp (pre @ b # post) body) tenv))
   \<and> ((\<forall>b \<in> set pre. validBinding P tenv b) \<and> \<not> boundIn tenv y \<longrightarrow>
      typeofExp P (LetExp (pre @ Binding vd (VarRef y) # post) body) tenv
        = makeFailure (unboundMessage P y))
   \<and> (validBinding P tenv (Binding vd (VarRef y)) \<longleftrightarrow> applyTEnv P tenv y = makeOk (texp vd))
   \<and> (boundIn tenv y \<longrightarrow> isOk (typeofExp P (VarRef y) tenv))
   \<and> letTEnv bindings tenv =
        makeExtendTEnv (map (\<lambda>b. var (bvar b)) bindings) (map (\<lambda>b. texp (bvar b)) bindings) tenv"
proof -
  have c1: "(\<forall>b \<in> set bindings. validBinding P tenv b) \<longrightarrow>
      typeofExp P (LetExp bindings body) tenv = typeofExps P body (letTEnv bindings tenv)"
    by (simp add: typeofLet_valid)
  have c2: "(\<forall>b \<in> set pre. validBinding P tenv b) \<and> typeofExp P (bval b) tenv = makeFailure message \<longrightarrow>
      typeofExp P (LetExp (pre @ b # post) body) tenv = makeFailure message"
    using typeofLet_value_failure [of pre P tenv b message post body] by simp
  have c3: "(\<forall>b \<in> set pre. validBinding P tenv b) \<and> typeofExp P (bval b) tenv = makeOk te
        \<and> te \<noteq> texp (bvar b) \<longrightarrow>
      \<not> isOk (typeofExp P (LetExp (pre @ b # post) body) tenv)"
    using typeofLet_value_mismatch [of pre P tenv b te post body] by simp
  have c4: "(\<forall>b \<in> set pre. validBinding P tenv b) \<and> \<not> boundIn tenv y \<longrightarrow>
      typeofExp P (LetExp (pre @ Binding vd (VarRef y) # post) body) tenv
        = makeFailure (unboundMessage P y)"
    using typeofLet_value_failure [of pre P tenv "Binding vd (VarRef y)" "unboundMessage P y" post body]
      applyTEnv_unbound [of tenv y P]
    by simp
  have c5: "validBinding P tenv (Binding vd (VarRef y)) \<longleftrightarrow> applyTEnv P tenv y = makeOk (texp vd)"
    by (simp add: validBinding_def)
  have c6: "letTEnv bindings tenv =
        makeExtendTEnv (map (\<lambda>b. var (bvar b)) bindings) (map (\<lambda>b. texp (bvar b)) bindings) tenv"
    by (simp add: letTEnv_def)
  have c7: "boundIn tenv y \<longrightarrow> isOk (typeofExp P (VarRef y) tenv)"
    by (simp add: applyTEnv_bound)
  show ?thesis
    by (intro conjI) (rule c1 c2 c3 c4 c5 c7 c6)+
qed

theorem typeofLet_rule_witness:
  "typeofExp samplePrinters
     (LetExp [Binding \<lparr>var = ''x'', texp = NumTExp\<rparr> (NumExp 1),
              Binding \<lparr>var = ''y'', texp = BoolTExp\<rparr> (BoolExp True)]
        [VarRef ''y'', VarRef ''x'']) EmptyTEnv = makeOk NumTExp
   \<and> typeofExp samplePrinters
     (LetExp [Binding \<lparr>var = ''x'', texp = NumTExp\<rparr> (NumExp 1),
              Binding \<lparr>var = ''y'', texp = NumTExp\<rparr> (VarRef ''x'')]
        [VarRef ''y'']) EmptyTEnv = makeFailure ''var not found: x''
   \<and> \<not> isOk (typeofExp samplePrinters
     (LetExp [Binding \<lparr>var = ''x'', texp = NumTExp\<rparr> (BoolExp True)] [VarRef ''x'']) EmptyTEnv)
   \<and> typeofExp samplePrinters
     (LetExp [Binding \<lparr>var = ''x'', texp = NumTExp\<rparr> (AppExp (PrimOp ''list'') [])] [VarRef ''x''])
     EmptyTEnv = makeFailure ''Primitive not yet implemented: list''
   \<and> isOk (typeofExp samplePrinters (VarRef ''x'') (ExtendTEnv [''x''] [NumTExp] EmptyTEnv))"
proof -
  let ?x = "Binding \<lparr>var = ''x'', texp = NumTExp\<rparr> (NumExp 1)"
  let ?y = "Binding \<lparr>var = ''y'', texp = BoolTExp\<rparr> (BoolExp True)"
  note a = typeofLet_rule [where P = samplePrinters and tenv = EmptyTEnv
      and bindings = "[?x, ?y]" and body = "[VarRef ''y'', VarRef ''x'']"]
  note b = typeofLet_rule [where P = samplePrinters and tenv = EmptyTEnv
      and pre = "[?x]" and vd = "\<lparr>var = ''y'', texp = NumTExp\<rparr>" and y = "''x''" and post = "[]"
      and body = "[VarRef ''y'']"]
  note c = typeofLet_rule [where P = samplePrinters and tenv = EmptyTEnv
      and pre = "[]" and b = "Binding \<lparr>var = ''x'', texp = NumTExp\<rparr> (BoolExp True)"
      and te = BoolTExp and post = "[]" and body = "[VarRef ''x'']"]
  note d = typeofLet_rule [where P = samplePrinters and tenv = EmptyTEnv
      and pre = "[]" and b = "Binding \<lparr>var = ''x'', texp = NumTExp\<rparr> (AppExp (PrimOp ''list'') [])"
      and message = "''Primitive not yet implemented: list''" and post = "[]"
      and body = "[VarRef ''x'']"]
  note e = typeofLet_rule [where P = samplePrinters
      and tenv = "ExtendTEnv [''x''] [NumTExp] EmptyTEnv" and y = "''x''"]
  from a b c d e show ?thesis
    by (simp add: sample_simps)
qed

subsection \<open>Letrec\<close>

text \<open>
  C8. A \<^verbatim>\<open>letrec\<close> fails at once when a bound value is not a procedure literal.
  Otherwise the bound names get the arrow types made of the declared parameter types and
  return types of their procedures alone (two lists of bindings with the same names and
  annotations give the same frame, whatever the bodies), all in one frame. The body
  sequence of each procedure is type-checked in that frame extended by the procedure's
  parameters and must have the declared return type: when every body agrees the type of
  the \<^verbatim>\<open>letrec\<close> is the type of its body sequence in the frame of the bound names, and
  when a body fails or disagrees the \<^verbatim>\<open>letrec\<close> fails.
\<close>

theorem typeofLetrec_rule:
  "(\<not> list_all isProcExp (map bval bindings) \<longrightarrow>
      typeofExp P (LetrecExp bindings body) tenv =
        makeFailure (''letrec - only support binding of procedures - ''
                      @ format P (LetrecExp bindings body)))
   \<and> (list_all isProcExp (map bval bindings)
        \<and> (\<forall>b \<in> set bindings. typeofExps P (procBody (bval b))
               (procTEnv (bval b) (letrecTEnv bindings tenv)) = makeOk (procReturnTE (bval b))) \<longrightarrow>
      typeofExp P (LetrecExp bindings body) tenv = typeofExps P body (letrecTEnv bindings tenv))
   \<and> (list_all isProcExp (map bval bindings)
        \<and> (\<exists>b \<in> set bindings. typeofExps P (procBody (bval b))
               (procTEnv (bval b) (letrecTEnv bindings tenv)) \<noteq> makeOk (procReturnTE (bval b))) \<longrightarrow>
      \<not> isOk (typeofExp P (LetrecExp bindings body) tenv))
   \<and> letrecTEnv bindings tenv =
        makeExtendTEnv (map (\<lambda>b. var (bvar b)) bindings)
          (map (\<lambda>b. ProcTExp (map texp (procArgs (bval b))) (procReturnTE (bval b))) bindings) tenv
   \<and> procTEnv (ProcExp args bodyI returnTE) tenvBody =
        makeExtendTEnv (map var args) (map texp args) tenvBody
   \<and> (map (\<lambda>b. (var (bvar b), map texp (procArgs (bval b)), procReturnTE (bval b))) bindings
         = map (\<lambda>b. (var (bvar b), map texp (procArgs (bval b)), procReturnTE (bval b))) bindings' \<longrightarrow>
      letrecTEnv bindings tenv = letrecTEnv bindings' tenv)"
proof -
  have c1: "\<not> list_all isProcExp (map bval bindings) \<longrightarrow>
      typeofExp P (LetrecExp bindings body) tenv =
        makeFailure (''letrec - only support binding of procedures - ''
                      @ format P (LetrecExp bindings body))"
    using typeofLetrec_not_procs [of bindings P body tenv] by simp
  have c2: "list_all isProcExp (map bval bindings)
        \<and> (\<forall>b \<in> set bindings. typeofExps P (procBody (bval b))
               (procTEnv (bval b) (letrecTEnv bindings tenv)) = makeOk (procReturnTE (bval b))) \<longrightarrow>
      typeofExp P (LetrecExp bindings body) tenv = typeofExps P body (letrecTEnv bindings tenv)"
    using typeofLetrec_bodies_agree [of bindings P tenv body]
    by (simp only: typeofExp.simps) blast
  have c3: "list_all isProcExp (map bval bindings)
        \<and> (\<exists>b \<in> set bindings. typeofExps P (procBody (bval b))
               (procTEnv (bval b) (letrecTEnv bindings tenv)) \<noteq> makeOk (procReturnTE (bval b))) \<longrightarrow>
      \<not> isOk (typeofExp P (LetrecExp bindings body) tenv)"
    using typeofLetrec_body_disagrees [of bindings P tenv body]
    by (simp only: typeofExp.simps) blast
  have c4: "letrecTEnv bindings tenv =
        makeExtendTEnv (map (\<lambda>b. var (bvar b)) bindings)
          (map (\<lambda>b. ProcTExp (map texp (procArgs (bval b))) (procReturnTE (bval b))) bindings) tenv"
    by (simp add: letrecTEnv_def)
  have c5: "procTEnv (ProcExp args bodyI returnTE) tenvBody =
        makeExtendTEnv (map var args) (map texp args) tenvBody"
    by (simp add: procTEnv_def)
  have c6: "map (\<lambda>b. (var (bvar b), map texp (procArgs (bval b)), procReturnTE (bval b))) bindings
         = map (\<lambda>b. (var (bvar b), map texp (procArgs (bval b)), procReturnTE (bval b))) bindings' \<longrightarrow>
      letrecTEnv bindings tenv = letrecTEnv bindings' tenv"
    using letrecTEnv_annotations_only [of bindings bindings' tenv] by blast
  show ?thesis
    by (intro conjI) (rule c1 c2 c3 c4 c5 c6)+
qed

theorem typeofLetrec_rule_witness:
  "typeofExp samplePrinters (LetrecExp evenOdd [AppExp (VarRef ''even?'') [NumExp 4]]) EmptyTEnv
     = makeOk BoolTExp
   \<and> typeofExp samplePrinters
        (LetrecExp [Binding \<lparr>var = ''f'', texp = NumTExp\<rparr> (NumExp 1)] [VarRef ''f'']) EmptyTEnv
     = makeFailure ''letrec - only support binding of procedures - <exp>''
   \<and> \<not> isOk (typeofExp samplePrinters
        (LetrecExp [Binding \<lparr>var = ''f'', texp = ProcTExp [] NumTExp\<rparr>
                      (ProcExp [] [BoolExp True] NumTExp)] [NumExp 1]) EmptyTEnv)
   \<and> letrecTEnv [Binding \<lparr>var = ''f'', texp = ProcTExp [] NumTExp\<rparr>
                    (ProcExp [] [BoolExp True] NumTExp)] EmptyTEnv
     = letrecTEnv [Binding \<lparr>var = ''f'', texp = ProcTExp [] NumTExp\<rparr>
                    (ProcExp [] [NumExp 1] NumTExp)] EmptyTEnv"
proof -
  let ?P = samplePrinters
  let ?f = "\<lparr>var = ''f'', texp = ProcTExp [] NumTExp\<rparr>"
  note a = typeofLetrec_rule [where P = ?P and tenv = EmptyTEnv and bindings = evenOdd
      and body = "[AppExp (VarRef ''even?'') [NumExp 4]]"]
  note b = typeofLetrec_rule [where P = ?P and tenv = EmptyTEnv
      and bindings = "[Binding \<lparr>var = ''f'', texp = NumTExp\<rparr> (NumExp 1)]" and body = "[VarRef ''f'']"]
  note c = typeofLetrec_rule [where P = ?P and tenv = EmptyTEnv
      and bindings = "[Binding ?f (ProcExp [] [BoolExp True] NumTExp)]" and body = "[NumExp 1]"
      and bindings' = "[Binding ?f (ProcExp [] [NumExp 1] NumTExp)]"]
  have a': "typeofExp ?P (LetrecExp evenOdd [AppExp (VarRef ''even?'') [NumExp 4]]) EmptyTEnv
     = makeOk BoolTExp"
    using a by (simp add: sample_simps evenOdd_def)
  have b': "typeofExp ?P
        (LetrecExp [Binding \<lparr>var = ''f'', texp = NumTExp\<rparr> (NumExp 1)] [VarRef ''f'']) EmptyTEnv
     = makeFailure ''letrec - only support binding of procedures - <exp>''"
    using b by (simp add: sample_simps)
  have c': "\<not> isOk (typeofExp ?P
        (LetrecExp [Binding ?f (ProcExp [] [BoolExp True] NumTExp)] [NumExp 1]) EmptyTEnv)
   \<and> letrecTEnv [Binding ?f (ProcExp [] [BoolExp True] NumTExp)] EmptyTEnv
     = letrecTEnv [Binding ?f (ProcExp [] [NumExp 1] NumTExp)] EmptyTEnv"
    using c by (simp add: sample_simps)
  from a' b' c' show ?thesis by simp
qed

subsection \<open>Quoted literals\<close>

text \<open>
  C9. A quoted value that is not a pair has type Literal. A quoted pair has the type
  \<open>Pair(leftType, rightType)\<close>, each component's type read from the runtime tag of
  that component alone; a symbol and a nested pair both give Literal, so nested pair
  structure does not give a nested pair type.
\<close>

theorem typeofLit_shallow:
  "(\<not> isCompoundSExp val \<longrightarrow> typeofExp P (LitExp val) tenv = makeOk LiteralTExp)
   \<and> typeofExp P (LitExp (CompoundSExp val1 val2)) tenv =
        makeOk (PairTExp (tagType val1) (tagType val2))
   \<and> tagType (SymbolSExp name) = LiteralTExp
   \<and> tagType (CompoundSExp val3 val4) = LiteralTExp"
proof -
  have a: "\<not> isCompoundSExp val \<longrightarrow> typeofExp P (LitExp val) tenv = makeOk LiteralTExp"
    by simp
  have t: "\<And>x. (case x of SNumber n \<Rightarrow> NumTExp | SBoolean b \<Rightarrow> BoolTExp | SString s \<Rightarrow> StrTExp
                  | SymbolSExp s \<Rightarrow> LiteralTExp | _ \<Rightarrow> LiteralTExp) = tagType x"
    by (case_tac x) simp_all
  have b: "typeofExp P (LitExp (CompoundSExp val1 val2)) tenv =
        makeOk (PairTExp (tagType val1) (tagType val2))"
    by (simp add: t)
  from a b show ?thesis by simp
qed

theorem typeofLit_shallow_witness:
  "typeofExp samplePrinters (LitExp (SymbolSExp ''a'')) EmptyTEnv = makeOk LiteralTExp
   \<and> typeofExp samplePrinters (LitExp EmptySExp) EmptyTEnv = makeOk LiteralTExp
   \<and> typeofExp samplePrinters
        (LitExp (CompoundSExp (SNumber 4) (CompoundSExp (SNumber 7) EmptySExp))) EmptyTEnv
        = makeOk (PairTExp NumTExp LiteralTExp)"
proof -
  note a = typeofLit_shallow [where val = "SymbolSExp ''a''" and P = samplePrinters
      and tenv = EmptyTEnv and ?val1.0 = "SNumber 4"
      and ?val2.0 = "CompoundSExp (SNumber 7) EmptySExp"]
  note b = typeofLit_shallow [where val = EmptySExp and P = samplePrinters and tenv = EmptyTEnv]
  from a b show ?thesis by simp
qed

subsection \<open>The dispatch\<close>

text \<open>
  C10. \<^verbatim>\<open>typeofExp\<close> returns a type or a failure for every node of the syntax: each
  variant has its branch of the dispatch. A \<^verbatim>\<open>set!\<close> node, which no rule handles, reaches
  the last branch and is rejected with the failure \<^verbatim>\<open>Unknown type\<close>.
\<close>

theorem typeofExp_SetExp_rejected:
  "typeofExp P (SetExp v val) tenv = makeFailure (''Unknown type: '' @ format P (SetExp v val))
   \<and> \<not> isOk (typeofExp P (SetExp v val) tenv)
   \<and> (\<forall>exp. (\<exists>te. typeofExp P exp tenv = makeOk te)
             \<or> (\<exists>message. typeofExp P exp tenv = makeFailure message))
   \<and> typeofExp P (NumExp n) tenv = makeOk NumTExp
   \<and> typeofExp P (BoolExp b) tenv = makeOk BoolTExp
   \<and> typeofExp P (StrExp str) tenv = makeOk StrTExp
   \<and> typeofExp P (PrimOp op) tenv = typeofPrim P (PrimOp op)
   \<and> typeofExp P (VarRef x) tenv = applyTEnv P tenv x
   \<and> typeofExp P (IfExp test thn alt) tenv = typeofIf P test thn alt tenv
   \<and> typeofExp P (ProcExp args body returnTE) tenv = typeofProc P args body returnTE tenv
   \<and> typeofExp P (AppExp rator rands) tenv = typeofApp P rator rands tenv
   \<and> typeofExp P (LetExp bindings body) tenv = typeofLet P bindings body tenv
   \<and> typeofExp P (LetrecExp bindings body) tenv = typeofLetrec P bindings body tenv
   \<and> typeofExp P (DefineExp vd val) tenv = typeofDefine P vd val tenv
   \<and> typeofExp P (Program forms) tenv = typeofProgram P forms
   \<and> typeofExp P (LitExp sexp) tenv = typeofLit (LitExp sexp)"
proof -
  have "\<And>r :: TExp Result. (\<exists>te. r = makeOk te) \<or> (\<exists>message. r = makeFailure message)"
    by (case_tac r) simp_all
  then show ?thesis by (simp add: typeofNum_def typeofBool_def typeofStr_def)
qed

theorem typeofExp_SetExp_rejected_witness:
  "typeofExp samplePrinters (SetExp ''x'' (NumExp 1)) EmptyTEnv = makeFailure ''Unknown type: <exp>''"
  using typeofExp_SetExp_rejected [where P = samplePrinters and v = "''x''" and val = "NumExp 1"
      and tenv = EmptyTEnv]
  by (simp add: samplePrinters_def)

end
